theory Spec2Isabelle
  imports Complex_Main
begin

section \<open>Python values and exceptions\<close>

text \<open>
  The exceptions the modelled code can raise. A function that may raise returns
  \<open>py_error + 'a\<close>, with \<open>Inl\<close> for the exception. Python floats are modelled
  as exact reals.
\<close>

datatype py_error =
  ValueError | IndexError | KeyError | TypeError | AttributeError | ZeroDivisionError | OSError

text \<open>Python's builtin \<open>sum\<close>: a left fold that starts at 0.\<close>

definition py_sum :: "'a::monoid_add list \<Rightarrow> 'a" where
  "py_sum xs = foldl (+) 0 xs"

section \<open>backtesting.py: the realized-return report\<close>

text \<open>
  numpy's boolean-mask indexing \<open>a[mask]\<close>: the rows of \<open>a\<close> at which the mask is
  true, in order; a mask whose length differs from the array's raises IndexError.
\<close>

fun mask_rows :: "bool list \<Rightarrow> 'a list \<Rightarrow> 'a list" where
  "mask_rows (b # bs) (r # rs) = (if b then r # mask_rows bs rs else mask_rows bs rs)"
| "mask_rows _ _ = []"

definition bool_index :: "'a list \<Rightarrow> bool list \<Rightarrow> py_error + 'a list" where
  "bool_index a m =
     (if length m = length a then Inr (mask_rows m a) else Inl IndexError)"

text \<open>
  \<open>calculate_returns\<close> returns a tuple of three numbers on one path and of four
  on the other; the datatype keeps the two shapes apart.
\<close>

datatype returns = Returns3 int int int | Returns4 int real real real

definition calculate_returns :: "bool list \<Rightarrow> (real \<times> real) list \<Rightarrow> py_error + returns" where
  "calculate_returns y_pred z_test =
     (let num_positive_predictions = py_sum (map (\<lambda>b. if b then 1 else 0) y_pred) in
      if num_positive_predictions \<le> 0 then Inr (Returns3 0 0 0)
      else
        case bool_index z_test y_pred of
          Inl e \<Rightarrow> Inl e
        | Inr selected \<Rightarrow>
            let stock_returns = map (\<lambda>r. 1 + fst r / 100) selected;
                market_returns = map (\<lambda>r. 1 + snd r / 100) selected;
                avg_predicted_stock_growth = py_sum stock_returns / of_int num_positive_predictions;
                index_growth = py_sum market_returns / of_int num_positive_predictions;
                percentage_stock_returns = 100 * (avg_predicted_stock_growth - 1);
                percentage_market_returns = 100 * (index_growth - 1);
                total_outperformance = percentage_stock_returns - percentage_market_returns
            in Inr (Returns4 num_positive_predictions percentage_stock_returns
                      percentage_market_returns total_outperformance))"

text \<open>
  The report that \<open>backtest\<close> logs. Line 105 of backtesting.py unpacks the result of
  \<open>calculate_returns\<close> into four names; Python raises ValueError when the tuple
  does not have exactly four components.
\<close>

record report =
  total_trades :: int
  average_stock_return :: real
  average_market_return :: real
  outperformance_points :: real

definition unpack_returns :: "returns \<Rightarrow> py_error + report" where
  "unpack_returns t =
     (case t of
        Returns4 n s m d \<Rightarrow>
          Inr \<lparr>total_trades = n, average_stock_return = s,
               average_market_return = m, outperformance_points = d\<rparr>
      | Returns3 _ _ _ \<Rightarrow> Inl ValueError)"

definition backtest_report :: "bool list \<Rightarrow> (real \<times> real) list \<Rightarrow> py_error + report" where
  "backtest_report y_pred z_test =
     (case calculate_returns y_pred z_test of
        Inl e \<Rightarrow> Inl e
      | Inr t \<Rightarrow> unpack_returns t)"

text \<open>
  The report as the specification words it: the rows predicted positive are picked
  by index, and each average is the mean of \<open>1 + percent_change / 100\<close> over them,
  turned back into a percentage.
\<close>

definition positive_rows :: "bool list \<Rightarrow> 'a list \<Rightarrow> 'a list" where
  "positive_rows y_pred z = map (\<lambda>i. z ! i) (filter (\<lambda>i. y_pred ! i) [0..<length z])"

definition mean_growth_percent :: "real list \<Rightarrow> real" where
  "mean_growth_percent ps =
     100 * (sum_list (map (\<lambda>p. 1 + p / 100) ps) / real (length ps) - 1)"

section \<open>Data frames\<close>

text \<open>
  A cell of a table read from a CSV file is a number, a string or the missing
  marker NaN. A frame has its column labels and its rows in file order, each row
  with its index label and its cells.
\<close>

datatype cell = Num real | Str string | NaN

record 'i frame =
  columns :: "string list"
  rows :: "('i \<times> cell list) list"

definition empty_frame :: "'i frame" where
  "empty_frame = \<lparr>columns = [], rows = []\<rparr>"

text \<open>pandas' \<open>DataFrame.empty\<close>: one of the two axes has length 0.\<close>

definition frame_empty :: "'i frame \<Rightarrow> bool" where
  "frame_empty df = (columns df = [] \<or> rows df = [])"

text \<open>\<open>dropna(axis=0, how="any")\<close>: a row with a NaN in any column is removed.\<close>

definition dropna_any :: "'i frame \<Rightarrow> 'i frame" where
  "dropna_any df = df\<lparr>rows := filter (\<lambda>r. NaN \<notin> set (snd r)) (rows df)\<rparr>"

text \<open>
  \<open>load_data\<close> (the same in backtesting.py, stock_prediction.py and
  parsing_keystats.py). The argument is what \<open>read_csv\<close> gave: a frame, or the
  exception it raised, which \<open>load_data\<close> logs and turns into an empty frame.
\<close>

definition load_data :: "py_error + 'i frame \<Rightarrow> 'i frame" where
  "load_data csv = (case csv of Inl e \<Rightarrow> empty_frame | Inr data_df \<Rightarrow> dropna_any data_df)"

text \<open>A cell of a row by position; a row shorter than the header reads as NaN.\<close>

definition cell_at :: "cell list \<Rightarrow> nat \<Rightarrow> cell" where
  "cell_at cs k = (if k < length cs then cs ! k else NaN)"

fun find_index_of :: "'a \<Rightarrow> 'a list \<Rightarrow> nat option" where
  "find_index_of x [] = None"
| "find_index_of x (y # ys) =
     (if x = y then Some 0 else map_option Suc (find_index_of x ys))"

text \<open>\<open>df[name]\<close>: the column of that label, KeyError when there is none.\<close>

definition column :: "'i frame \<Rightarrow> string \<Rightarrow> py_error + cell list" where
  "column df name =
     (case find_index_of name (columns df) of
        None \<Rightarrow> Inl KeyError
      | Some k \<Rightarrow> Inr (map (\<lambda>r. cell_at (snd r) k) (rows df)))"

section \<open>backtesting.py: labels and the train/test split\<close>

definition bind_err :: "'e + 'a \<Rightarrow> ('a \<Rightarrow> 'e + 'b) \<Rightarrow> 'e + 'b" where
  "bind_err r f = (case r of Inl e \<Rightarrow> Inl e | Inr x \<Rightarrow> f x)"

fun sequence_err :: "('e + 'a) list \<Rightarrow> 'e + 'a list" where
  "sequence_err [] = Inr []"
| "sequence_err (r # rs) =
     (case r of
        Inl e \<Rightarrow> Inl e
      | Inr x \<Rightarrow> (case sequence_err rs of Inl e \<Rightarrow> Inl e | Inr xs \<Rightarrow> Inr (x # xs)))"

text \<open>
  Modelled from the spec: \<open>status_calc\<close> is defined in utils.py, which is not among
  the sources. The specification gives the label as
  \<open>(ticker_percent_change - benchmark_percent_change) >= outperformance_threshold_percent\<close>.
\<close>

definition status_calc :: "real \<Rightarrow> real \<Rightarrow> real \<Rightarrow> bool" where
  "status_calc stock sp500 outperformance = (stock - sp500 \<ge> outperformance)"

text \<open>
  \<open>status_calc\<close> on two cells of the frame's columns: numbers are compared, a
  string cannot be subtracted (TypeError), and a comparison with NaN is false.
\<close>

fun status_cell :: "cell \<Rightarrow> cell \<Rightarrow> real \<Rightarrow> py_error + bool" where
  "status_cell (Num a) (Num b) t = Inr (status_calc a b t)"
| "status_cell (Str _) _ _ = Inl TypeError"
| "status_cell _ (Str _) _ = Inl TypeError"
| "status_cell _ _ _ = Inr False"

text \<open>Line 36 of backtesting.py: the labels \<open>y\<close>, with \<open>outperformance=10\<close>.\<close>

definition split_labels :: "cell list \<Rightarrow> cell list \<Rightarrow> py_error + bool list" where
  "split_labels stock_p_change sp500_p_change =
     sequence_err (map (\<lambda>(a, b). status_cell a b 10) (zip stock_p_change sp500_p_change))"

text \<open>
  Line 11 of stock_prediction.py: \<open>OUTPERFORMANCE = int(os.getenv("OUTPERFORMANCE", 10))\<close>.
  \<open>env\<close> is the value of the environment variable when it is set, and \<open>py_int\<close>
  is Python's conversion of a string to an integer.
\<close>

definition OUTPERFORMANCE :: "(string \<Rightarrow> py_error + int) \<Rightarrow> string option \<Rightarrow> py_error + int" where
  "OUTPERFORMANCE py_int env = (case env of None \<Rightarrow> Inr 10 | Some s \<Rightarrow> py_int s)"

text \<open>numpy's indexing of an array by a list of positions.\<close>

definition take_rows :: "'a list \<Rightarrow> nat list \<Rightarrow> py_error + 'a list" where
  "take_rows a idx =
     sequence_err (map (\<lambda>i. if i < length a then Inr (a ! i) else Inl IndexError) idx)"

text \<open>
  scikit-learn's \<open>train_test_split\<close>. The library is not part of the repository;
  what is modelled is its interface: the generator is the one seeded with
  \<open>random_state\<close> when that is given and the ambient global generator \<open>ambient\<close>
  otherwise, \<open>chooser\<close> draws the train and test positions for the number of
  samples and the test fraction from the generator, and every array is indexed by
  the same positions.
\<close>

definition train_test_split ::
  "(nat \<Rightarrow> 'g) \<Rightarrow> ('g \<Rightarrow> nat \<Rightarrow> real \<Rightarrow> py_error + nat list \<times> nat list) \<Rightarrow> 'g \<Rightarrow>
   'x list \<Rightarrow> 'y list \<Rightarrow> 'z list \<Rightarrow> real \<Rightarrow> nat option \<Rightarrow>
   py_error + ('x list \<times> 'x list \<times> 'y list \<times> 'y list \<times> 'z list \<times> 'z list)" where
  "train_test_split seeded chooser ambient X y z test_size random_state =
     (let rng = (case random_state of None \<Rightarrow> ambient | Some seed \<Rightarrow> seeded seed) in
      bind_err (chooser rng (length X) test_size) (\<lambda>(train, test).
      bind_err (take_rows X train) (\<lambda>X_train.
      bind_err (take_rows X test) (\<lambda>X_test.
      bind_err (take_rows y train) (\<lambda>y_train.
      bind_err (take_rows y test) (\<lambda>y_test.
      bind_err (take_rows z train) (\<lambda>z_train.
      bind_err (take_rows z test) (\<lambda>z_test.
        Inr (X_train, X_test, y_train, y_test, z_train, z_test)))))))))"

text \<open>
  \<open>split_data\<close>: the features are the columns from the seventh on, the labels come
  from the two percent-change columns, and the split is seeded with 0.
\<close>

definition split_data ::
  "(nat \<Rightarrow> 'g) \<Rightarrow> ('g \<Rightarrow> nat \<Rightarrow> real \<Rightarrow> py_error + nat list \<times> nat list) \<Rightarrow> 'g \<Rightarrow>
   'i frame \<Rightarrow> real \<Rightarrow>
   py_error + (cell list list \<times> cell list list \<times> bool list \<times> bool list \<times>
               (cell \<times> cell) list \<times> (cell \<times> cell) list)" where
  "split_data seeded chooser ambient data_df test_size =
     (let X = map (\<lambda>r. drop 6 (snd r)) (rows data_df) in
      bind_err (column data_df ''stock_p_change'') (\<lambda>stock_p_change.
      bind_err (column data_df ''SP500_p_change'') (\<lambda>sp500_p_change.
      bind_err (split_labels stock_p_change sp500_p_change) (\<lambda>y.
        let z = zip stock_p_change sp500_p_change in
        train_test_split seeded chooser ambient X y z test_size (Some 0)))))"

text \<open>A two-row sample of keystats.csv; the second row lacks its one feature.\<close>

definition keystats_sample :: "string frame" where
  "keystats_sample =
     \<lparr>columns = [''Unix'', ''Ticker'', ''Price'', ''stock_p_change'', ''SP500'',
                 ''SP500_p_change'', ''Market Cap''],
      rows = [(''2005-01-03'', [Num 1, Str ''a'', Num 10, Num 20, Num 100, Num 5, Num 7]),
              (''2005-02-01'', [Num 2, Str ''a'', Num 11, Num 12, Num 101, Num 5, NaN])]\<rparr>"

section \<open>parsing_keystats.py and current_data.py: the fundamentals extractor\<close>

text \<open>
  The regular expression that both extractors build for a field is the escaped
  anchor text, then lazily any characters (newlines included), then the value
  token in group 1, an optional percent sign and a closing table-cell or span tag.
  The value token is a number with optional K, M, B suffixes, the text N/A, the
  text >0 or, in the primary pattern only, the text NaN. A pattern is kept as its
  anchor and whether NaN is accepted. The parameter \<open>re_search\<close> stands for
  \<open>re.search\<close> with DOTALL followed by \<open>group(1)\<close>: the token of the leftmost
  match, or \<open>None\<close> when there is no match. The parameter \<open>data_string_to_float\<close>
  stands for the function of that name in utils.py, which is not among the
  sources; it may raise.
\<close>

datatype pattern = Pattern (anchor: string) (accepts_NaN: bool)

text \<open>The list of features of parsing_keystats.py.\<close>

definition features :: "string list" where
  "features =
     [''Market Cap'', ''Enterprise Value'', ''Trailing P/E'', ''Forward P/E'', ''PEG Ratio'',
      ''Price/Sales'', ''Price/Book'', ''Enterprise Value/Revenue'', ''Enterprise Value/EBITDA'',
      ''Profit Margin'', ''Operating Margin'', ''Return on Assets'', ''Return on Equity'',
      ''Revenue'', ''Revenue Per Share'', ''Qtrly Revenue Growth'', ''Gross Profit'',
      ''EBITDA'', ''Net Income Avl to Common'', ''Diluted EPS'', ''Qtrly Earnings Growth'',
      ''Total Cash'', ''Total Cash Per Share'', ''Total Debt'', ''Total Debt/Equity'',
      ''Current Ratio'', ''Book Value Per Share'', ''Operating Cash Flow'',
      ''Levered Free Cash Flow'', ''Beta'', ''50-Day Moving Average'',
      ''200-Day Moving Average'', ''Avg Vol (3 month)'', ''Shares Outstanding'', ''Float'',
      ''% Held by Insiders'', ''% Held by Institutions'', ''Shares Short (as of'',
      ''Short Ratio'', ''Short % of Float'', ''Shares Short (prior month'']"

text \<open>\<open>file.read().replace(",", "")\<close>: the text without its commas.\<close>

definition remove_commas :: "string \<Rightarrow> string" where
  "remove_commas text = filter (\<lambda>c. c \<noteq> CHR '','') text"

text \<open>
  One search and conversion, as both \<open>try\<close> blocks of \<open>parse_html_file\<close> do it:
  \<open>group(1)\<close> on a failed search raises AttributeError.
\<close>

definition search_value ::
  "(pattern \<Rightarrow> string \<Rightarrow> string option) \<Rightarrow> (string \<Rightarrow> py_error + cell) \<Rightarrow>
   pattern \<Rightarrow> string \<Rightarrow> py_error + cell" where
  "search_value re_search data_string_to_float regex source =
     (case re_search regex source of
        None \<Rightarrow> Inl AttributeError
      | Some v \<Rightarrow> data_string_to_float v)"

text \<open>
  The body of the loop of \<open>parse_html_file\<close> for one field: the value appended to
  \<open>value_list\<close>, or the exception that leaves the loop.
\<close>

definition parse_variable ::
  "(pattern \<Rightarrow> string \<Rightarrow> string option) \<Rightarrow> (string \<Rightarrow> py_error + cell) \<Rightarrow>
   string \<Rightarrow> string \<Rightarrow> py_error + cell" where
  "parse_variable re_search data_string_to_float source variable =
     (case search_value re_search data_string_to_float (Pattern (''>'' @ variable) True) source of
        Inl AttributeError \<Rightarrow>
          (if variable = ''Avg Vol (3 month)'' then
             (case search_value re_search data_string_to_float
                     (Pattern ''>Average Volume (3 month)'' False) source of
                Inl AttributeError \<Rightarrow> Inr (Str ''N/A'')
              | r \<Rightarrow> r)
           else Inr (Str ''N/A''))
      | r \<Rightarrow> r)"

fun parse_variables ::
  "(pattern \<Rightarrow> string \<Rightarrow> string option) \<Rightarrow> (string \<Rightarrow> py_error + cell) \<Rightarrow>
   string \<Rightarrow> string list \<Rightarrow> cell list \<Rightarrow> py_error + cell list" where
  "parse_variables re_search data_string_to_float source [] value_list = Inr value_list"
| "parse_variables re_search data_string_to_float source (variable # rest) value_list =
     (case parse_variable re_search data_string_to_float source variable of
        Inl e \<Rightarrow> Inl e
      | Inr v \<Rightarrow> parse_variables re_search data_string_to_float source rest (value_list @ [v]))"

text \<open>
  \<open>parse_html_file\<close>. \<open>file\<close> is the text read from the path, or the exception
  that opening or reading raised. The commas are removed from the whole text
  once. Any exception that leaves the loop is caught by the outer handler, which
  returns N/A for every field.
\<close>

definition parse_html_file ::
  "(pattern \<Rightarrow> string \<Rightarrow> string option) \<Rightarrow> (string \<Rightarrow> py_error + cell) \<Rightarrow>
   py_error + string \<Rightarrow> string list \<Rightarrow> cell list" where
  "parse_html_file re_search data_string_to_float file feature_names =
     (case file of
        Inl e \<Rightarrow> replicate (length feature_names) (Str ''N/A'')
      | Inr text \<Rightarrow>
          (let source = remove_commas text in
           case parse_variables re_search data_string_to_float source feature_names [] of
             Inl e \<Rightarrow> replicate (length feature_names) (Str ''N/A'')
           | Inr value_list \<Rightarrow> value_list))"

text \<open>
  \<open>parse_html\<close> of current_data.py: no retry; a field that is not found is
  converted from the text N/A.
\<close>

fun parse_html_values ::
  "(pattern \<Rightarrow> string \<Rightarrow> string option) \<Rightarrow> (string \<Rightarrow> py_error + cell) \<Rightarrow>
   string \<Rightarrow> string list \<Rightarrow> cell list \<Rightarrow> py_error + cell list" where
  "parse_html_values re_search data_string_to_float source [] value_list = Inr value_list"
| "parse_html_values re_search data_string_to_float source (variable # rest) value_list =
     (let val = (case re_search (Pattern (''>'' @ variable) True) source of
                   Some v \<Rightarrow> v
                 | None \<Rightarrow> ''N/A'')
      in case data_string_to_float val of
           Inl e \<Rightarrow> Inl e
         | Inr v \<Rightarrow> parse_html_values re_search data_string_to_float source rest (value_list @ [v]))"

definition parse_html ::
  "(pattern \<Rightarrow> string \<Rightarrow> string option) \<Rightarrow> (string \<Rightarrow> py_error + cell) \<Rightarrow>
   py_error + string \<Rightarrow> string list \<Rightarrow> cell list" where
  "parse_html re_search data_string_to_float file feature_names =
     (case file of
        Inl e \<Rightarrow> replicate (length feature_names) (Str ''N/A'')
      | Inr text \<Rightarrow>
          (let source = remove_commas text in
           case parse_html_values re_search data_string_to_float source feature_names [] of
             Inl e \<Rightarrow> replicate (length feature_names) (Str ''N/A'')
           | Inr value_list \<Rightarrow> value_list))"

section \<open>parsing_keystats.py: the price series\<close>

text \<open>
  The price files are indexed by date. A date is a calendar day, counted in days;
  \<open>pd.date_range(start, end)\<close> is every day from \<open>start\<close> to \<open>end\<close>, both
  included, which is \<open>[start..end]\<close>.
\<close>

type_synonym date = int

text \<open>
  \<open>df.reindex(idx)\<close>: one row per label of \<open>idx\<close>, the row of the frame at that
  label when it has one and a row of NaN otherwise. pandas refuses to reindex a
  frame whose index has duplicate labels (ValueError).
\<close>

definition reindex :: "'i frame \<Rightarrow> 'i list \<Rightarrow> py_error + 'i frame" where
  "reindex df idx =
     (if \<not> distinct (map fst (rows df)) then Inl ValueError
      else Inr (df\<lparr>rows :=
             map (\<lambda>d. (d, case map_of (rows df) d of
                            Some cs \<Rightarrow> cs
                          | None \<Rightarrow> replicate (length (columns df)) NaN)) idx\<rparr>))"

text \<open>
  \<open>df.ffill()\<close>: going down the rows, a NaN is replaced by the last value seen
  above it in the same column; a NaN with no value above it stays.
\<close>

fun fill_row :: "cell list \<Rightarrow> cell list \<Rightarrow> cell list" where
  "fill_row (p # ps) (c # cs) = (if c = NaN then p else c) # fill_row ps cs"
| "fill_row [] cs = cs"
| "fill_row ps [] = []"

fun ffill_rows :: "cell list \<Rightarrow> ('i \<times> cell list) list \<Rightarrow> ('i \<times> cell list) list" where
  "ffill_rows prev [] = []"
| "ffill_rows prev ((d, cs) # rest) =
     (let filled = fill_row prev cs in (d, filled) # ffill_rows filled rest)"

definition ffill :: "'i frame \<Rightarrow> 'i frame" where
  "ffill df = df\<lparr>rows := ffill_rows [] (rows df)\<rparr>"

definition reindex_and_fill :: "date frame \<Rightarrow> date \<Rightarrow> date \<Rightarrow> py_error + date frame" where
  "reindex_and_fill df start_date end_date =
     (let idx = [start_date..end_date] in
      bind_err (reindex df idx) (\<lambda>df. Inr (ffill df)))"

text \<open>
  \<open>preprocess_price_data\<close>. The arguments are what \<open>read_csv\<close> gave for
  sp500_index.csv and stock_prices.csv. Both frames are reindexed over the days
  from the first to the last index label of the stock frame.
\<close>

definition preprocess_price_data ::
  "py_error + date frame \<Rightarrow> py_error + date frame \<Rightarrow> py_error + date frame \<times> date frame" where
  "preprocess_price_data sp500_csv stock_csv =
     (let sp500_df = load_data sp500_csv;
          stock_df = load_data stock_csv
      in if frame_empty sp500_df \<or> frame_empty stock_df then Inr (empty_frame, empty_frame)
         else
           let start_date = fst (hd (rows stock_df));
               end_date = fst (last (rows stock_df))
           in bind_err (reindex_and_fill sp500_df start_date end_date) (\<lambda>sp500_df.
              bind_err (reindex_and_fill stock_df start_date end_date) (\<lambda>stock_df.
                Inr (sp500_df, stock_df))))"

text \<open>\<open>df.loc[d, col]\<close>: KeyError when the label or the column is not there.\<close>

definition loc :: "'i frame \<Rightarrow> 'i \<Rightarrow> string \<Rightarrow> py_error + cell" where
  "loc df d col =
     (case map_of (rows df) d of
        None \<Rightarrow> Inl KeyError
      | Some cs \<Rightarrow>
          (case find_index_of col (columns df) of
             None \<Rightarrow> Inl KeyError
           | Some k \<Rightarrow> Inr (cell_at cs k)))"

text \<open>A frame as \<open>read_csv\<close> builds it: every row has one cell per column.\<close>

definition rectangular :: "'i frame \<Rightarrow> bool" where
  "rectangular df = list_all (\<lambda>r. length (snd r) = length (columns df)) (rows df)"

text \<open>
  Two sample price files: trading days 0 (a Friday) and 3 (the Monday after), with
  no rows for the weekend in between.
\<close>

definition sp500_sample :: "date frame" where
  "sp500_sample = \<lparr>columns = [''Adj Close''], rows = [(0, [Num 100]), (3, [Num 103])]\<rparr>"

definition stock_sample :: "date frame" where
  "stock_sample = \<lparr>columns = [''AAPL''], rows = [(0, [Num 10]), (3, [Num 13])]\<rparr>"

section \<open>parsing_keystats.py: the labelled rows\<close>

text \<open>
  Times are seconds since the epoch, as whole numbers (the file names carry whole
  seconds). \<open>datetime.fromtimestamp(t).strftime("%Y-%m-%d")\<close> is the calendar day
  of the instant \<open>t\<close> in the machine's time zone. The zone is the parameter
  \<open>utc_offset\<close>: the offset from UTC, in seconds, that is in force at an instant,
  so that a zone with daylight saving has different offsets at different instants.
\<close>

definition local_date :: "(int \<Rightarrow> int) \<Rightarrow> int \<Rightarrow> date" where
  "local_date utc_offset t = (t + utc_offset t) div 86400"

text \<open>Line 144: the time whose day is \<open>one_year_later\<close>.\<close>

definition one_year_later_time :: "int \<Rightarrow> int" where
  "one_year_later_time unix_time = unix_time + 31536000"

text \<open>
  A Python float is a real number or nan. \<open>float(c)\<close> of a cell converts a
  string with \<open>str_to_float\<close>, Python's parser, which may raise.
\<close>

datatype pyfloat = Fl real | Nan

definition py_float :: "(string \<Rightarrow> py_error + pyfloat) \<Rightarrow> cell \<Rightarrow> py_error + pyfloat" where
  "py_float str_to_float c =
     (case c of Num x \<Rightarrow> Inr (Fl x) | NaN \<Rightarrow> Inr Nan | Str s \<Rightarrow> str_to_float s)"

text \<open>\<open>round(x, 2)\<close>: to two decimals, a tie going to the even neighbour.\<close>

definition round_half_even :: "real \<Rightarrow> int" where
  "round_half_even x =
     (let f = \<lfloor>x\<rfloor>; r = x - of_int f
      in if r < 1 / 2 then f else if 1 / 2 < r then f + 1 else if even f then f else f + 1)"

definition py_round2 :: "real \<Rightarrow> real" where
  "py_round2 x = of_int (round_half_even (x * 100)) / 100"

text \<open>
  \<open>round(((price_1y - price) / price * 100), 2)\<close>: dividing by a zero price raises
  ZeroDivisionError, and nan propagates.
\<close>

definition p_change :: "pyfloat \<Rightarrow> pyfloat \<Rightarrow> py_error + pyfloat" where
  "p_change price price_1y =
     (case price of
        Nan \<Rightarrow> Inr Nan
      | Fl p \<Rightarrow>
          if p = 0 then Inl ZeroDivisionError
          else (case price_1y of
                  Nan \<Rightarrow> Inr Nan
                | Fl q \<Rightarrow> Inr (Fl (py_round2 ((q - p) / p * 100)))))"

text \<open>
  The body of each of the two \<open>try\<close> blocks of \<open>parse_keystats\<close>: the price at
  the snapshot date, the price a year later and the percent change.
\<close>

definition price_change ::
  "(string \<Rightarrow> py_error + pyfloat) \<Rightarrow> date frame \<Rightarrow> string \<Rightarrow> date \<Rightarrow> date \<Rightarrow>
   py_error + pyfloat \<times> pyfloat" where
  "price_change str_to_float df col current_date one_year_later =
     bind_err (loc df current_date col) (\<lambda>c0.
     bind_err (py_float str_to_float c0) (\<lambda>price.
     bind_err (loc df one_year_later col) (\<lambda>c1.
     bind_err (py_float str_to_float c1) (\<lambda>price_1y.
     bind_err (p_change price price_1y) (\<lambda>change.
       Inr (price, change))))))"

text \<open>\<open>str.upper\<close> on the letters a to z.\<close>

definition upper :: "string \<Rightarrow> string" where
  "upper s =
     map (\<lambda>c. let n = (of_char c :: nat) in
               if 97 \<le> n \<and> n \<le> 122 then char_of (n - 32) else c) s"

text \<open>
  A snapshot is one file of a ticker's directory: the ticker, the time parsed from
  the file name and the file's text (or the exception that reading it raises).
\<close>

record snapshot =
  ticker :: string
  unix_time :: int
  html :: "py_error + string"

text \<open>A row of the dataset, with the columns of \<open>df_columns\<close>.\<close>

record labeled_row =
  Date :: date
  Unix :: int
  Ticker :: string
  Price :: pyfloat
  stock_p_change :: pyfloat
  SP500 :: pyfloat
  SP500_p_change :: pyfloat
  value_list :: "cell list"

text \<open>
  The body of the inner loop of \<open>parse_keystats\<close> for one snapshot: \<open>Inr None\<close>
  when the snapshot is skipped with \<open>continue\<close>, \<open>Inr (Some row)\<close> when a row is
  appended, \<open>Inl e\<close> when an exception other than the caught KeyError leaves the
  function.

  Modelled from the spec: the text of \<open>parse_keystats\<close> among the sources stops
  inside the handler of the second \<open>try\<close> block, after the first, which skips the
  snapshot on KeyError. That the second handler skips the snapshot in the same
  way, and that otherwise one row is appended, follows the specification: "Any
  lookup miss causes the whole row to be Absent" and "on Absent label, skip the
  snapshot entirely (log at warning severity, continue)".
\<close>

definition snapshot_row ::
  "(int \<Rightarrow> int) \<Rightarrow> (string \<Rightarrow> py_error + pyfloat) \<Rightarrow>
   (pattern \<Rightarrow> string \<Rightarrow> string option) \<Rightarrow> (string \<Rightarrow> py_error + cell) \<Rightarrow>
   date frame \<Rightarrow> date frame \<Rightarrow> snapshot \<Rightarrow> py_error + labeled_row option" where
  "snapshot_row utc_offset str_to_float re_search data_string_to_float sp500_df stock_df snap =
     (let values = parse_html_file re_search data_string_to_float (html snap) features;
          current_date = local_date utc_offset (unix_time snap);
          one_year_later = local_date utc_offset (one_year_later_time (unix_time snap))
      in case price_change str_to_float sp500_df ''Adj Close'' current_date one_year_later of
           Inl KeyError \<Rightarrow> Inr None
         | Inl e \<Rightarrow> Inl e
         | Inr (sp500_price, sp500_p_change) \<Rightarrow>
             (case price_change str_to_float stock_df (upper (ticker snap))
                     current_date one_year_later of
                Inl KeyError \<Rightarrow> Inr None
              | Inl e \<Rightarrow> Inl e
              | Inr (stock_price, stock_change) \<Rightarrow>
                  Inr (Some \<lparr>Date = current_date, Unix = unix_time snap,
                             Ticker = upper (ticker snap), Price = stock_price,
                             stock_p_change = stock_change, SP500 = sp500_price,
                             SP500_p_change = sp500_p_change, value_list = values\<rparr>)))"

text \<open>The loops of \<open>parse_keystats\<close> over the snapshots, in order.\<close>

fun parse_keystats_rows ::
  "(int \<Rightarrow> int) \<Rightarrow> (string \<Rightarrow> py_error + pyfloat) \<Rightarrow>
   (pattern \<Rightarrow> string \<Rightarrow> string option) \<Rightarrow> (string \<Rightarrow> py_error + cell) \<Rightarrow>
   date frame \<Rightarrow> date frame \<Rightarrow> snapshot list \<Rightarrow> labeled_row list \<Rightarrow>
   py_error + labeled_row list" where
  "parse_keystats_rows off sf rs d2f sp500_df stock_df [] df = Inr df"
| "parse_keystats_rows off sf rs d2f sp500_df stock_df (snap # rest) df =
     (case snapshot_row off sf rs d2f sp500_df stock_df snap of
        Inl e \<Rightarrow> Inl e
      | Inr None \<Rightarrow> parse_keystats_rows off sf rs d2f sp500_df stock_df rest df
      | Inr (Some row) \<Rightarrow> parse_keystats_rows off sf rs d2f sp500_df stock_df rest (df @ [row]))"

definition parse_keystats ::
  "(int \<Rightarrow> int) \<Rightarrow> (string \<Rightarrow> py_error + pyfloat) \<Rightarrow>
   (pattern \<Rightarrow> string \<Rightarrow> string option) \<Rightarrow> (string \<Rightarrow> py_error + cell) \<Rightarrow>
   date frame \<Rightarrow> date frame \<Rightarrow> snapshot list \<Rightarrow> py_error + labeled_row list" where
  "parse_keystats off sf rs d2f sp500_df stock_df snapshots =
     parse_keystats_rows off sf rs d2f sp500_df stock_df snapshots []"

text \<open>The two sample price files after preprocessing, and two snapshots of AAPL.\<close>

definition sp500_filled :: "date frame" where
  "sp500_filled =
     \<lparr>columns = [''Adj Close''],
      rows = [(0, [Num 100]), (1, [Num 100]), (2, [Num 100]), (3, [Num 103])]\<rparr>"

definition stock_filled :: "date frame" where
  "stock_filled =
     \<lparr>columns = [''AAPL''],
      rows = [(0, [Num 10]), (1, [Num 10]), (2, [Num 10]), (3, [Num 13])]\<rparr>"

definition late_snapshot :: snapshot where
  "late_snapshot = \<lparr>ticker = ''aapl'', unix_time = 86400, html = Inr []\<rparr>"

text \<open>
  US Eastern time in 2004 and 2005: four hours behind UTC from 4 April 2004 07:00
  UTC to 31 October 2004 06:00 UTC and from 3 April 2005 07:00 UTC to 30 October
  2005 06:00 UTC, five hours behind otherwise.
\<close>

definition us_eastern :: "int \<Rightarrow> int" where
  "us_eastern t =
     (if (1081062000 \<le> t \<and> t < 1099202400) \<or> (1112511600 \<le> t \<and> t < 1130652000)
      then - 14400 else - 18000)"

text \<open>
  A benchmark file with one more trading day than the sample stock file, and a
  stock file of two tickers in which the second has no price on day 0.
\<close>

definition sp500_week :: "date frame" where
  "sp500_week =
     \<lparr>columns = [''Adj Close''], rows = [(0, [Num 100]), (3, [Num 103]), (4, [Num 104])]\<rparr>"

definition two_ticker_sample :: "date frame" where
  "two_ticker_sample =
     \<lparr>columns = [''AAPL'', ''MSFT''],
      rows = [(0, [Num 10, NaN]), (1, [Num 11, Num 20]), (3, [Num 13, Num 22])]\<rparr>"

text \<open>
  Sample inputs of the extractors. \<open>table_search\<close> is a search that finds, for
  each anchor of the table, the token listed with it, and nothing for any other
  anchor. In \<open>volume_text\<close> only the anchor "Average Volume (3 month)" occurs,
  followed by the token 5; in \<open>volume_beta_text\<close> the anchor "Beta" occurs too,
  followed by the token 1..2, which the pattern of a number matches and which
  Python's \<open>float\<close> refuses with ValueError. \<open>sample_convert\<close> converts as
  \<open>data_string_to_float\<close> is specified to on these tokens.
\<close>

definition table_search :: "(string \<times> string) list \<Rightarrow> pattern \<Rightarrow> string \<Rightarrow> string option" where
  "table_search table regex source = map_of table (anchor regex)"



definition sample_convert :: "string \<Rightarrow> py_error + cell" where
  "sample_convert s =
     (if s = ''N/A'' then Inr (Str ''N/A'')
      else if s = ''5'' then Inr (Num 5)
      else Inl ValueError)"

section \<open>Properties of the realized-return report\<close>

lemma py_sum_foldl: "foldl (+) a xs = a + sum_list xs"
  for a :: "'a::monoid_add"
  by (induction xs arbitrary: a) (simp_all add: add.assoc)

lemma py_sum_sum_list: "py_sum xs = sum_list xs"
  by (simp add: py_sum_def py_sum_foldl)

lemma mask_rows_positive_rows:
  "length m = length a \<Longrightarrow> mask_rows m a = positive_rows m a"
proof (induction m a rule: list_induct2)
  case Nil
  then show ?case by (simp add: positive_rows_def)
next
  case (Cons b bs r rs)
  have "[0..<length (r # rs)] = 0 # map Suc [0..<length rs]"
    by (simp add: upt_conv_Cons map_Suc_upt del: upt_Suc)
  then show ?case using Cons
    by (simp add: positive_rows_def filter_map comp_def del: upt_Suc)
qed

lemma count_positive:
  "length m = length a \<Longrightarrow>
     py_sum (map (\<lambda>b. if b then 1 else 0) m) = int (length (mask_rows m a))"
  by (induction m a rule: list_induct2) (simp_all add: py_sum_sum_list)

lemma mask_rows_nonempty:
  "length m = length a \<Longrightarrow> True \<in> set m \<Longrightarrow> mask_rows m a \<noteq> []"
  by (induction m a rule: list_induct2) auto

lemma no_positive_sum:
  "True \<notin> set y_pred \<Longrightarrow> py_sum (map (\<lambda>b. if b then 1 else 0) y_pred) = (0::int)"
  by (induction y_pred) (simp_all add: py_sum_sum_list)

text \<open>
  With no positive prediction \<open>calculate_returns\<close> returns before it indexes
  anything, whatever the shapes of its arguments, and hands back three zeros.
\<close>

lemma calculate_returns_no_positive:
  "True \<notin> set y_pred \<Longrightarrow> calculate_returns y_pred z_test = Inr (Returns3 0 0 0)"
  by (simp add: calculate_returns_def no_positive_sum)

lemma backtest_report_no_positive:
  "True \<notin> set y_pred \<Longrightarrow> backtest_report y_pred z_test = Inl ValueError"
  by (simp add: backtest_report_def calculate_returns_no_positive unpack_returns_def)

text \<open>
  C1. The claim: when the classifier predicts no positive on the held-out set, the
  backtest still ends normally with a report that signals "no trades". On the
  code: for the two held-out rows \<open>(1, 2)\<close> and \<open>(3, 4)\<close>, both predicted
  negative, \<open>calculate_returns\<close> logs its warning and returns the three-component
  tuple \<open>(0, 0, 0)\<close>, and the four-name unpacking in \<open>backtest\<close> then raises
  ValueError, so no report is produced.
\<close>

theorem backtest_no_trades_raises:
  "calculate_returns [False, False] [(1, 2), (3, 4)] = Inr (Returns3 0 0 0) \<and>
   backtest_report [False, False] [(1, 2), (3, 4)] = Inl ValueError"
  by (simp add: backtest_report_def calculate_returns_def unpack_returns_def py_sum_def)

text \<open>
  C2. For a prediction vector over the held-out rows with at least one positive
  prediction, \<open>calculate_returns\<close> reports the number of rows predicted positive,
  the mean of \<open>1 + percent_change / 100\<close> over exactly those rows turned back into a
  percentage, for the ticker and for the benchmark, and the difference of the two.
  (Floats are taken as exact reals.)
\<close>

theorem calculate_returns_averages:
  assumes "length y_pred = length z_test" and "True \<in> set y_pred"
  shows "calculate_returns y_pred z_test =
           Inr (Returns4 (int (length (positive_rows y_pred z_test)))
                  (mean_growth_percent (map fst (positive_rows y_pred z_test)))
                  (mean_growth_percent (map snd (positive_rows y_pred z_test)))
                  (mean_growth_percent (map fst (positive_rows y_pred z_test))
                     - mean_growth_percent (map snd (positive_rows y_pred z_test))))"
proof -
  let ?sel = "mask_rows y_pred z_test"
  have n: "py_sum (map (\<lambda>b. if b then 1 else 0) y_pred) = int (length ?sel)"
    using assms(1) by (rule count_positive)
  have pos: "\<not> int (length ?sel) \<le> 0"
    using mask_rows_nonempty [OF assms] by simp
  have sel: "?sel = positive_rows y_pred z_test"
    using assms(1) by (rule mask_rows_positive_rows)
  show ?thesis
    unfolding calculate_returns_def Let_def n bool_index_def
    using pos assms(1)
    by (simp add: sel mean_growth_percent_def py_sum_sum_list comp_def)
qed

text \<open>
  The report scenario of the specification: two rows, both predicted positive, with
  ticker returns 10 and 4 and benchmark returns 2 and 1, give 7, 1.5 and 5.5.
\<close>

theorem calculate_returns_averages_witness:
  "length [True, True] = length [(10 :: real, 2 :: real), (4, 1)] \<and> True \<in> set [True, True] \<and>
   calculate_returns [True, True] [(10, 2), (4, 1)] = Inr (Returns4 2 7 (3 / 2) (11 / 2))"
proof -
  have pr: "positive_rows [True, True] [(10 :: real, 2 :: real), (4, 1)] = [(10, 2), (4, 1)]"
    by (simp add: positive_rows_def upt_rec)
  show ?thesis
    using calculate_returns_averages [of "[True, True]" "[(10, 2), (4, 1)]"]
    by (simp add: pr mean_growth_percent_def)
qed

section \<open>Properties of the labels, the split and the loaded dataset\<close>

lemma sequence_err_map_Inr: "sequence_err (map (\<lambda>x. Inr (f x)) xs) = Inr (map f xs)"
  by (induction xs) simp_all

lemma split_labels_numeric:
  "split_labels (map Num ss) (map Num ms) = Inr (map (\<lambda>(s, m). s - m \<ge> 10) (zip ss ms))"
proof -
  have "map (\<lambda>(a, b). status_cell a b 10) (zip (map Num ss) (map Num ms))
        = map (\<lambda>p. Inr (case p of (s, m) \<Rightarrow> s - m \<ge> 10)) (zip ss ms)"
    by (simp add: zip_map_map status_calc_def case_prod_unfold)
  then show ?thesis
    unfolding split_labels_def by (simp only: sequence_err_map_Inr)
qed

text \<open>
  C7. The label of a row is true exactly when the ticker's percent change minus the
  benchmark's is at least the threshold: so \<open>status_calc\<close> at any threshold, so the
  labels \<open>y\<close> that \<open>split_data\<close> computes from the two numeric columns at its
  threshold 10, and 10 is the default of \<open>OUTPERFORMANCE\<close> when the environment
  does not set it. Ticker +20 against benchmark +5 is labelled true, ticker +12
  against benchmark +5 false.
\<close>

theorem outperformance_label:
  "split_labels (map Num ss) (map Num ms) = Inr (map (\<lambda>(s, m). s - m \<ge> 10) (zip ss ms)) \<and>
   status_calc s m t = (s - m \<ge> t) \<and>
   OUTPERFORMANCE py_int None = Inr 10 \<and>
   status_calc 20 5 10 \<and> \<not> status_calc 12 5 10"
  by (simp add: split_labels_numeric status_calc_def OUTPERFORMANCE_def)

text \<open>
  C9. \<open>split_data\<close> seeds the split with 0, so its result is a function of the
  dataset and the test fraction alone: the state of the ambient random generator,
  the only thing that differs between two runs on the same inputs, has no
  influence on the train and test subsets.
\<close>

theorem split_data_deterministic:
  "split_data seeded chooser ambient data_df test_size =
   split_data seeded chooser ambient' data_df test_size"
  by (simp add: split_data_def train_test_split_def)

text \<open>An unseeded split, by contrast, does read the ambient generator.\<close>

lemma unseeded_split_reads_ambient:
  "train_test_split (\<lambda>s. s) (\<lambda>g n t. Inr ([g], [])) (0::nat)
       [1, 2 :: nat] [3, 4 :: nat] [5, 6 :: nat] (1 / 5) None
     \<noteq> train_test_split (\<lambda>s. s) (\<lambda>g n t. Inr ([g], [])) 1 [1, 2] [3, 4] [5, 6] (1 / 5) None"
  by (simp add: train_test_split_def take_rows_def bind_err_def)

lemma sequence_err_set:
  "sequence_err rs = Inr xs \<Longrightarrow> x \<in> set xs \<Longrightarrow> Inr x \<in> set rs"
proof (induction rs arbitrary: xs)
  case Nil
  then show ?case by simp
next
  case (Cons r rs)
  then show ?case by (auto split: sum.splits)
qed

lemma take_rows_subset:
  assumes "take_rows a idx = Inr xs" shows "set xs \<subseteq> set a"
proof
  fix x assume "x \<in> set xs"
  with assms have "Inr x \<in> set (map (\<lambda>i. if i < length a then Inr (a ! i) else Inl IndexError) idx)"
    unfolding take_rows_def by (rule sequence_err_set)
  then show "x \<in> set a" by (auto split: if_splits)
qed

lemma bind_err_Inr: "bind_err r f = Inr y \<Longrightarrow> \<exists>x. r = Inr x \<and> f x = Inr y"
  by (cases r) (simp_all add: bind_err_def)

lemma train_test_split_subset:
  assumes "train_test_split seeded chooser ambient X y z ts rs = Inr (Xtr, Xte, ytr, yte, ztr, zte)"
  shows "set Xtr \<subseteq> set X \<and> set Xte \<subseteq> set X"
proof -
  from assms obtain tr te where
    a: "bind_err (take_rows X tr) (\<lambda>X_train.
      bind_err (take_rows X te) (\<lambda>X_test.
      bind_err (take_rows y tr) (\<lambda>y_train.
      bind_err (take_rows y te) (\<lambda>y_test.
      bind_err (take_rows z tr) (\<lambda>z_train.
      bind_err (take_rows z te) (\<lambda>z_test.
        Inr (X_train, X_test, y_train, y_test, z_train, z_test))))))) = Inr (Xtr, Xte, ytr, yte, ztr, zte)"
    unfolding train_test_split_def Let_def by (fastforce dest: bind_err_Inr)
  from bind_err_Inr [OF a] obtain x1 where x1: "take_rows X tr = Inr x1" and
    b: "bind_err (take_rows X te) (\<lambda>X_test.
      bind_err (take_rows y tr) (\<lambda>y_train.
      bind_err (take_rows y te) (\<lambda>y_test.
      bind_err (take_rows z tr) (\<lambda>z_train.
      bind_err (take_rows z te) (\<lambda>z_test.
        Inr (x1, X_test, y_train, y_test, z_train, z_test)))))) = Inr (Xtr, Xte, ytr, yte, ztr, zte)"
    by blast
  from bind_err_Inr [OF b] obtain x2 where x2: "take_rows X te = Inr x2" and
    c: "bind_err (take_rows y tr) (\<lambda>y_train.
      bind_err (take_rows y te) (\<lambda>y_test.
      bind_err (take_rows z tr) (\<lambda>z_train.
      bind_err (take_rows z te) (\<lambda>z_test.
        Inr (x1, x2, y_train, y_test, z_train, z_test))))) = Inr (Xtr, Xte, ytr, yte, ztr, zte)"
    by blast
  from bind_err_Inr [OF c] obtain y1 where
    d: "bind_err (take_rows y te) (\<lambda>y_test.
      bind_err (take_rows z tr) (\<lambda>z_train.
      bind_err (take_rows z te) (\<lambda>z_test.
        Inr (x1, x2, y1, y_test, z_train, z_test)))) = Inr (Xtr, Xte, ytr, yte, ztr, zte)"
    by blast
  from bind_err_Inr [OF d] obtain y2 where
    e: "bind_err (take_rows z tr) (\<lambda>z_train.
      bind_err (take_rows z te) (\<lambda>z_test.
        Inr (x1, x2, y1, y2, z_train, z_test))) = Inr (Xtr, Xte, ytr, yte, ztr, zte)"
    by blast
  from bind_err_Inr [OF e] obtain z1 where
    f: "bind_err (take_rows z te) (\<lambda>z_test.
        Inr (x1, x2, y1, y2, z1, z_test)) = Inr (Xtr, Xte, ytr, yte, ztr, zte)"
    by blast
  from bind_err_Inr [OF f] have "x1 = Xtr" "x2 = Xte" by auto
  with x1 x2 show ?thesis by (auto dest: take_rows_subset)
qed

lemma load_data_rows:
  "rows (load_data (Inr df)) = filter (\<lambda>r. NaN \<notin> set (snd r)) (rows df)"
  by (simp add: load_data_def dropna_any_def)

lemma load_data_no_NaN: "r \<in> set (rows (load_data csv)) \<Longrightarrow> NaN \<notin> set (snd r)"
  by (cases csv) (simp_all add: load_data_def dropna_any_def empty_frame_def)

text \<open>
  C10. \<open>load_data\<close> keeps exactly the rows of the file that have no missing cell,
  and whenever \<open>split_data\<close> succeeds on the loaded dataset, no feature vector of
  the training set (given to \<open>fit\<close>) or of the test set (given to \<open>predict\<close> and
  \<open>score\<close>) holds a missing marker.
\<close>

theorem load_data_drops_missing:
  assumes "split_data seeded chooser ambient (load_data (Inr df)) ts
             = Inr (X_train, X_test, y_train, y_test, z_train, z_test)"
  shows "rows (load_data (Inr df)) = filter (\<lambda>r. NaN \<notin> set (snd r)) (rows df) \<and>
         (\<forall>x \<in> set X_train \<union> set X_test. NaN \<notin> set x)"
proof -
  let ?X = "map (\<lambda>r. drop 6 (snd r)) (rows (load_data (Inr df)))"
  from assms obtain y z where
    "train_test_split seeded chooser ambient ?X y z ts (Some 0)
       = Inr (X_train, X_test, y_train, y_test, z_train, z_test)"
    unfolding split_data_def Let_def by (fastforce dest: bind_err_Inr)
  then have sub: "set X_train \<subseteq> set ?X \<and> set X_test \<subseteq> set ?X"
    by (rule train_test_split_subset)
  have clean: "NaN \<notin> set x" if "x \<in> set ?X" for x
  proof -
    from that obtain r where r: "r \<in> set (rows (load_data (Inr df)))" and x: "x = drop 6 (snd r)"
      by auto
    from load_data_no_NaN [OF r] show ?thesis
      unfolding x by (auto dest: in_set_dropD)
  qed
  from sub clean have "\<forall>x \<in> set X_train \<union> set X_test. NaN \<notin> set x" by blast
  then show ?thesis by (simp add: load_data_rows)
qed

lemma keystats_sample_split:
  "split_data (\<lambda>s. s) (\<lambda>g n t. Inr ([0], [])) (1::nat) (load_data (Inr keystats_sample)) (1 / 5)
     = Inr ([[Num 7]], [], [True], [], [(Num 20, Num 5)], [])"
  by (simp add: split_data_def load_data_def dropna_any_def keystats_sample_def column_def
      cell_at_def split_labels_def status_calc_def train_test_split_def take_rows_def bind_err_def)

theorem load_data_drops_missing_witness:
  "split_data (\<lambda>s. s) (\<lambda>g n t. Inr ([0], [])) (1::nat) (load_data (Inr keystats_sample)) (1 / 5)
     = Inr ([[Num 7]], [], [True], [], [(Num 20, Num 5)], []) \<and>
   rows (load_data (Inr keystats_sample))
     = [(''2005-01-03'', [Num 1, Str ''a'', Num 10, Num 20, Num 100, Num 5, Num 7])] \<and>
   NaN \<notin> set [Num 7]"
  using load_data_drops_missing [OF keystats_sample_split] keystats_sample_split
  by (simp add: keystats_sample_def)

section \<open>Properties of the fundamentals extractor\<close>

lemma parse_variables_sequence:
  "parse_variables rs d2f src fs acc =
     (case sequence_err (map (parse_variable rs d2f src) fs) of
        Inl e \<Rightarrow> Inl e | Inr xs \<Rightarrow> Inr (acc @ xs))"
  by (induction fs arbitrary: acc) (simp_all split: sum.splits)

lemma sequence_err_nth:
  "sequence_err rs = Inr xs \<Longrightarrow> length xs = length rs \<and> (\<forall>i<length rs. rs ! i = Inr (xs ! i))"
proof (induction rs arbitrary: xs)
  case Nil
  then show ?case by simp
next
  case (Cons r rs)
  then show ?case by (auto split: sum.splits simp: nth_Cons split: nat.splits)
qed

lemma parse_variables_nth:
  assumes "parse_variables rs d2f src fs [] = Inr vs"
  shows "length vs = length fs \<and> (\<forall>i<length fs. parse_variable rs d2f src (fs ! i) = Inr (vs ! i))"
proof -
  from assms have "sequence_err (map (parse_variable rs d2f src) fs) = Inr vs"
    by (simp add: parse_variables_sequence split: sum.splits)
  from sequence_err_nth [OF this] show ?thesis by simp
qed

lemma parse_html_values_length:
  "parse_html_values rs d2f src fs acc = Inr vs \<Longrightarrow> length vs = length acc + length fs"
  by (induction fs arbitrary: acc) (auto simp: Let_def split: sum.splits)

lemma parse_html_file_length: "length (parse_html_file rs d2f file fs) = length fs"
  by (auto simp: parse_html_file_def Let_def split: sum.splits dest: parse_variables_nth)

lemma parse_html_length: "length (parse_html rs d2f file fs) = length fs"
  by (auto simp: parse_html_def Let_def split: sum.splits dest: parse_html_values_length)

lemma parse_variable_unfound:
  assumes "rs (Pattern (''>'' @ v) True) src = None"
    and "v = ''Avg Vol (3 month)'' \<longrightarrow> rs (Pattern ''>Average Volume (3 month)'' False) src = None"
  shows "parse_variable rs d2f src v = Inr (Str ''N/A'')"
  using assms by (simp add: parse_variable_def search_value_def)

text \<open>
  An entry of the result of \<open>parse_html_file\<close> is the value its field parsed to,
  unless the outer handler replaced the whole vector.
\<close>

lemma parse_html_file_nth:
  assumes "i < length fs"
  shows "parse_html_file rs d2f (Inr text) fs ! i = Str ''N/A'' \<or>
         parse_variable rs d2f (remove_commas text) (fs ! i)
           = Inr (parse_html_file rs d2f (Inr text) fs ! i)"
proof (cases "parse_variables rs d2f (remove_commas text) fs []")
  case (Inl e)
  with assms show ?thesis by (simp add: parse_html_file_def)
next
  case (Inr vs)
  from parse_variables_nth [OF Inr] assms
  have "parse_variable rs d2f (remove_commas text) (fs ! i) = Inr (vs ! i)" by simp
  with Inr show ?thesis by (simp add: parse_html_file_def)
qed

lemma parse_html_file_missing:
  assumes "i < length fs"
    and "parse_variable rs d2f (remove_commas text) (fs ! i) = Inr (Str ''N/A'') \<or>
         (\<exists>e. parse_variable rs d2f (remove_commas text) (fs ! i) = Inl e)"
  shows "parse_html_file rs d2f (Inr text) fs ! i = Str ''N/A''"
  using parse_html_file_nth [OF assms(1), of rs d2f "text"] assms(2) by auto

lemma parse_html_values_sequence:
  "parse_html_values rs d2f src fs acc =
     (case sequence_err
             (map (\<lambda>v. d2f (case rs (Pattern (''>'' @ v) True) src of
                              Some t \<Rightarrow> t | None \<Rightarrow> ''N/A'')) fs) of
        Inl e \<Rightarrow> Inl e | Inr xs \<Rightarrow> Inr (acc @ xs))"
  by (induction fs arbitrary: acc) (simp_all add: Let_def split: sum.splits)

text \<open>
  An entry of the result of \<open>parse_html\<close> is the conversion of the token found
  for its field, or of the text N/A when none is found, unless the handler
  replaced the whole vector.
\<close>

lemma parse_html_nth:
  assumes "i < length fs"
  shows "parse_html rs d2f (Inr text) fs ! i = Str ''N/A'' \<or>
         d2f (case rs (Pattern (''>'' @ fs ! i) True) (remove_commas text) of
                Some t \<Rightarrow> t | None \<Rightarrow> ''N/A'')
           = Inr (parse_html rs d2f (Inr text) fs ! i)"
proof (cases "parse_html_values rs d2f (remove_commas text) fs []")
  case (Inl e)
  with assms show ?thesis by (simp add: parse_html_def)
next
  case (Inr vs)
  then have "sequence_err
               (map (\<lambda>v. d2f (case rs (Pattern (''>'' @ v) True) (remove_commas text) of
                                Some t \<Rightarrow> t | None \<Rightarrow> ''N/A'')) fs) = Inr vs"
    by (simp add: parse_html_values_sequence split: sum.splits)
  from sequence_err_nth [OF this] assms
  have "d2f (case rs (Pattern (''>'' @ fs ! i) True) (remove_commas text) of
               Some t \<Rightarrow> t | None \<Rightarrow> ''N/A'') = Inr (vs ! i)"
    by simp
  with Inr show ?thesis by (simp add: parse_html_def)
qed

text \<open>
  C5. Both extractors return exactly one entry per field name, whatever the text
  is and whether or not it could be read; a file that cannot be read gives N/A
  for every field. Each entry is N/A or the value its own field converts to. In
  \<open>parse_html_file\<close> the entry of a field that is not found (by its anchor, nor
  by the alternate anchor where there is one), or whose conversion raises, is
  N/A. In \<open>parse_html\<close> the entry of a field whose conversion raises is N/A, and
  so is the entry of a field that is not found, which is converted from the text
  N/A, when \<open>data_string_to_float\<close> maps that text to N/A. A text in which
  nothing is found, as the empty text, gives N/A for every field.
\<close>

theorem extractor_vector_length:
  "length (parse_html_file rs d2f file fs) = length fs \<and>
   length (parse_html rs d2f file fs) = length fs \<and>
   (\<forall>i<length fs.
      (rs (Pattern (''>'' @ fs ! i) True) (remove_commas text) = None \<and>
       (fs ! i = ''Avg Vol (3 month)'' \<longrightarrow>
          rs (Pattern ''>Average Volume (3 month)'' False) (remove_commas text) = None)) \<or>
      (\<exists>e. parse_variable rs d2f (remove_commas text) (fs ! i) = Inl e)
      \<longrightarrow> parse_html_file rs d2f (Inr text) fs ! i = Str ''N/A'') \<and>
   ((\<forall>p. rs p (remove_commas text) = None)
      \<longrightarrow> parse_html_file rs d2f (Inr text) fs = replicate (length fs) (Str ''N/A'')) \<and>
   parse_html_file rs d2f (Inl err) fs = replicate (length fs) (Str ''N/A'') \<and>
   parse_html rs d2f (Inl err) fs = replicate (length fs) (Str ''N/A'') \<and>
   (\<forall>i<length fs.
      parse_html_file rs d2f (Inr text) fs ! i = Str ''N/A'' \<or>
      parse_variable rs d2f (remove_commas text) (fs ! i)
        = Inr (parse_html_file rs d2f (Inr text) fs ! i)) \<and>
   (\<forall>i<length fs.
      parse_html rs d2f (Inr text) fs ! i = Str ''N/A'' \<or>
      d2f (case rs (Pattern (''>'' @ fs ! i) True) (remove_commas text) of
             Some t \<Rightarrow> t | None \<Rightarrow> ''N/A'')
        = Inr (parse_html rs d2f (Inr text) fs ! i)) \<and>
   (\<forall>i<length fs.
      (\<exists>e. d2f (case rs (Pattern (''>'' @ fs ! i) True) (remove_commas text) of
                 Some t \<Rightarrow> t | None \<Rightarrow> ''N/A'') = Inl e)
      \<longrightarrow> parse_html rs d2f (Inr text) fs ! i = Str ''N/A'') \<and>
   (\<forall>i<length fs.
      rs (Pattern (''>'' @ fs ! i) True) (remove_commas text) = None \<and>
      d2f ''N/A'' = Inr (Str ''N/A'')
      \<longrightarrow> parse_html rs d2f (Inr text) fs ! i = Str ''N/A'') \<and>
   ((\<forall>p. rs p (remove_commas text) = None) \<and> d2f ''N/A'' = Inr (Str ''N/A'')
      \<longrightarrow> parse_html rs d2f (Inr text) fs = replicate (length fs) (Str ''N/A''))"
proof -
  have entry: "parse_html_file rs d2f (Inr text) fs ! i = Str ''N/A''"
    if "i < length fs"
      and "(rs (Pattern (''>'' @ fs ! i) True) (remove_commas text) = None \<and>
            (fs ! i = ''Avg Vol (3 month)'' \<longrightarrow>
               rs (Pattern ''>Average Volume (3 month)'' False) (remove_commas text) = None)) \<or>
           (\<exists>e. parse_variable rs d2f (remove_commas text) (fs ! i) = Inl e)" for i
    using that parse_variable_unfound [of rs "fs ! i" "remove_commas text" d2f]
    by (intro parse_html_file_missing) auto
  have empty: "parse_html_file rs d2f (Inr text) fs = replicate (length fs) (Str ''N/A'')"
    if "\<forall>p. rs p (remove_commas text) = None"
  proof (rule nth_equalityI)
    show "length (parse_html_file rs d2f (Inr text) fs) = length (replicate (length fs) (Str ''N/A''))"
      by (simp add: parse_html_file_length)
  next
    fix i assume "i < length (parse_html_file rs d2f (Inr text) fs)"
    then have i: "i < length fs" by (simp add: parse_html_file_length)
    with that entry [of i] show
      "parse_html_file rs d2f (Inr text) fs ! i = replicate (length fs) (Str ''N/A'') ! i"
      by simp
  qed
  have unreadable:
    "parse_html_file rs d2f (Inl err) fs = replicate (length fs) (Str ''N/A'')"
    "parse_html rs d2f (Inl err) fs = replicate (length fs) (Str ''N/A'')"
    by (simp_all add: parse_html_file_def parse_html_def)
  have own_file: "parse_html_file rs d2f (Inr text) fs ! i = Str ''N/A'' \<or>
      parse_variable rs d2f (remove_commas text) (fs ! i)
        = Inr (parse_html_file rs d2f (Inr text) fs ! i)" if "i < length fs" for i
    using that by (rule parse_html_file_nth)
  have own: "parse_html rs d2f (Inr text) fs ! i = Str ''N/A'' \<or>
      d2f (case rs (Pattern (''>'' @ fs ! i) True) (remove_commas text) of
             Some t \<Rightarrow> t | None \<Rightarrow> ''N/A'')
        = Inr (parse_html rs d2f (Inr text) fs ! i)" if "i < length fs" for i
    using that by (rule parse_html_nth)
  have raised: "parse_html rs d2f (Inr text) fs ! i = Str ''N/A''"
    if "i < length fs"
      and "\<exists>e. d2f (case rs (Pattern (''>'' @ fs ! i) True) (remove_commas text) of
                    Some t \<Rightarrow> t | None \<Rightarrow> ''N/A'') = Inl e" for i
    using own [OF that(1)] that(2) by auto
  have unfound: "parse_html rs d2f (Inr text) fs ! i = Str ''N/A''"
    if "i < length fs"
      and "rs (Pattern (''>'' @ fs ! i) True) (remove_commas text) = None"
      and "d2f ''N/A'' = Inr (Str ''N/A'')" for i
    using own [OF that(1)] that(2,3) by auto
  have empty_html: "parse_html rs d2f (Inr text) fs = replicate (length fs) (Str ''N/A'')"
    if "\<forall>p. rs p (remove_commas text) = None" and "d2f ''N/A'' = Inr (Str ''N/A'')"
  proof (rule nth_equalityI)
    show "length (parse_html rs d2f (Inr text) fs) = length (replicate (length fs) (Str ''N/A''))"
      by (simp add: parse_html_length)
  next
    fix i assume "i < length (parse_html rs d2f (Inr text) fs)"
    then have i: "i < length fs" by (simp add: parse_html_length)
    with that unfound [of i] show
      "parse_html rs d2f (Inr text) fs ! i = replicate (length fs) (Str ''N/A'') ! i"
      by simp
  qed
  have lens: "length (parse_html_file rs d2f file fs) = length fs"
    "length (parse_html rs d2f file fs) = length fs"
    by (rule parse_html_file_length, rule parse_html_length)
  from lens entry empty unreadable own_file own raised unfound empty_html
  show ?thesis by blast
qed

text \<open>
  On the empty text, where no search finds anything, both extractors give N/A
  for the two fields asked for.
\<close>

theorem extractor_vector_length_witness:
  "sample_convert ''N/A'' = Inr (Str ''N/A'') \<and>
   length (parse_html_file (table_search []) sample_convert (Inr '''') [''Beta'', ''Float'']) = 2 \<and>
   length (parse_html (table_search []) sample_convert (Inr '''') [''Beta'', ''Float'']) = 2 \<and>
   parse_html_file (table_search []) sample_convert (Inr '''') [''Beta'', ''Float'']
     = [Str ''N/A'', Str ''N/A''] \<and>
   parse_html (table_search []) sample_convert (Inr '''') [''Beta'', ''Float'']
     = [Str ''N/A'', Str ''N/A'']"
proof -
  have conv: "sample_convert ''N/A'' = Inr (Str ''N/A'')"
    by (simp add: sample_convert_def)
  have none: "\<forall>p. table_search [] p (remove_commas '''') = None"
    by (simp add: table_search_def)
  note t = extractor_vector_length
    [of "table_search []" sample_convert "Inr ''''" "[''Beta'', ''Float'']" "''''"]
  from t none have "parse_html_file (table_search []) sample_convert (Inr '''') [''Beta'', ''Float'']
                      = replicate (length [''Beta'', ''Float'']) (Str ''N/A'')"
    by blast
  moreover from t none conv have
    "parse_html (table_search []) sample_convert (Inr '''') [''Beta'', ''Float'']
       = replicate (length [''Beta'', ''Float'']) (Str ''N/A'')"
    by blast
  ultimately show ?thesis using conv by (simp add: numeral_2_eq_2)
qed







section \<open>Properties of the price series\<close>

lemma ffill_rows_fst: "map fst (ffill_rows prev rs) = map fst rs"
  by (induction prev rs rule: ffill_rows.induct) (simp_all add: Let_def)

lemma fill_row_clean: "NaN \<notin> set cs \<Longrightarrow> fill_row prev cs = cs"
  by (induction prev cs rule: fill_row.induct) auto

lemma fill_row_blank: "length prev = n \<Longrightarrow> fill_row prev (replicate n NaN) = prev"
proof (induction prev arbitrary: n)
  case Nil
  then show ?case by simp
next
  case (Cons p ps)
  then obtain m where "n = Suc m" by (cases n) auto
  with Cons show ?case by simp
qed

text \<open>The filled frame has a row for exactly the labels it was reindexed over.\<close>

lemma ffill_rows_domain:
  "(map_of (ffill_rows prev (map (\<lambda>d. (d, G d)) idx)) d = None) = (d \<notin> set idx)"
proof -
  have "fst ` set (ffill_rows prev (map (\<lambda>d. (d, G d)) idx)) = set idx"
    using ffill_rows_fst [of prev "map (\<lambda>d. (d, G d)) idx"]
    by (metis (no_types, lifting) list.set_map map_map comp_def fst_conv map_idI)
  then show ?thesis by (simp add: map_of_eq_None_iff)
qed

text \<open>Over a run of days without data, the row carried from above is repeated.\<close>

lemma ffill_rows_carries:
  assumes "length prev = n"
  shows "s \<le> d \<Longrightarrow> d \<le> e \<Longrightarrow> \<forall>d'. s \<le> d' \<and> d' \<le> d \<longrightarrow> G d' = replicate n NaN \<Longrightarrow>
         map_of (ffill_rows prev (map (\<lambda>d. (d, G d)) [s..e])) d = Some prev"
proof (induction s e rule: upto.induct)
  case (1 i j)
  from 1 have ij: "i \<le> j" by simp
  have blank: "G i = replicate n NaN" using 1 by simp
  have step: "fill_row prev (G i) = prev" using assms blank by (simp add: fill_row_blank)
  show ?case
  proof (cases "d = i")
    case True
    then show ?thesis using ij step by (simp add: upto_rec1 Let_def)
  next
    case False
    with 1 have "i + 1 \<le> d" by simp
    with 1 ij have "map_of (ffill_rows prev (map (\<lambda>d. (d, G d)) [i + 1..j])) d = Some prev"
      by simp
    with False ij step show ?thesis by (simp add: upto_rec1 Let_def)
  qed
qed

text \<open>
  The filled row of a day is the row of the last day at or before it that has
  data, when that row is complete.
\<close>

lemma ffill_rows_last_known:
  assumes "length (G d0) = n" and "NaN \<notin> set (G d0)"
    and "\<forall>d'. d0 < d' \<and> d' \<le> d \<longrightarrow> G d' = replicate n NaN"
  shows "s \<le> d0 \<Longrightarrow> d0 \<le> d \<Longrightarrow> d \<le> e \<Longrightarrow>
         map_of (ffill_rows prev (map (\<lambda>d. (d, G d)) [s..e])) d = Some (G d0)"
proof (induction s e arbitrary: prev rule: upto.induct)
  case (1 i j)
  from 1 have ij: "i \<le> j" by simp
  show ?case
  proof (cases "d0 = i")
    case True
    have step: "fill_row prev (G i) = G i"
      using assms(2) True by (simp add: fill_row_clean)
    show ?thesis
    proof (cases "d = i")
      case True
      with ij step show ?thesis using \<open>d0 = i\<close> by (simp add: upto_rec1 Let_def)
    next
      case False
      with 1 True have lo: "i + 1 \<le> d" by simp
      have "map_of (ffill_rows (G i) (map (\<lambda>d. (d, G d)) [i + 1..j])) d = Some (G i)"
        using assms(1) True lo 1(4) assms(3)
        by (intro ffill_rows_carries) auto
      with False ij step True show ?thesis by (simp add: upto_rec1 Let_def)
    qed
  next
    case False
    with 1 have lo: "i + 1 \<le> d0" by simp
    with 1 ij have "map_of (ffill_rows (fill_row prev (G i)) (map (\<lambda>d. (d, G d)) [i + 1..j])) d
                      = Some (G d0)"
      by simp
    moreover have "d \<noteq> i" using lo 1 by simp
    ultimately show ?thesis using ij by (simp add: upto_rec1 Let_def)
  qed
qed

lemma reindex_and_fill_rows:
  assumes "reindex_and_fill df s e = Inr df'"
  shows "columns df' = columns df \<and>
         rows df' = ffill_rows []
           (map (\<lambda>d. (d, case map_of (rows df) d of
                           Some cs \<Rightarrow> cs
                         | None \<Rightarrow> replicate (length (columns df)) NaN)) [s..e])"
  using assms
  by (auto simp: reindex_and_fill_def reindex_def ffill_def bind_err_def Let_def split: if_splits)

lemma find_index_of_Some:
  "x \<in> set ys \<Longrightarrow> \<exists>k. find_index_of x ys = Some k \<and> k < length ys"
  by (induction ys) auto

lemma reindex_and_fill_KeyError:
  assumes "reindex_and_fill df s e = Inr df'" and "col \<in> set (columns df)"
  shows "(loc df' d col = Inl KeyError) = (d < s \<or> e < d)"
proof -
  from find_index_of_Some [OF assms(2)]
  obtain k where k: "find_index_of col (columns df) = Some k" by blast
  note r = reindex_and_fill_rows [OF assms(1)]
  have "(map_of (rows df') d = None) = (d \<notin> set [s..e])"
    using r by (simp only: ffill_rows_domain)
  then show ?thesis using r k
    by (auto simp: loc_def split: option.splits)
qed

lemma loaded_row:
  assumes "rectangular df" and "\<forall>r\<in>set (rows df). NaN \<notin> set (snd r)"
    and "map_of (rows df) d = Some cs"
  shows "length cs = length (columns df) \<and> NaN \<notin> set cs"
proof -
  from assms(3) have "(d, cs) \<in> set (rows df)" by (rule map_of_SomeD)
  with assms(1,2) show ?thesis by (auto simp: rectangular_def list_all_iff)
qed

lemma reindex_and_fill_last_known:
  assumes "reindex_and_fill df s e = Inr df'"
    and "rectangular df" and "\<forall>r\<in>set (rows df). NaN \<notin> set (snd r)"
    and "s \<le> d0" and "d0 \<le> d" and "d \<le> e"
    and "map_of (rows df) d0 \<noteq> None"
    and "\<forall>d'. d0 < d' \<and> d' \<le> d \<longrightarrow> map_of (rows df) d' = None"
  shows "loc df' d col = loc df d0 col"
proof -
  let ?n = "length (columns df)"
  let ?G = "\<lambda>d. case map_of (rows df) d of Some cs \<Rightarrow> cs | None \<Rightarrow> replicate ?n NaN"
  from assms(7) obtain cs where cs: "map_of (rows df) d0 = Some cs" by auto
  from loaded_row [OF assms(2,3) cs] have good: "length (?G d0) = ?n" "NaN \<notin> set (?G d0)"
    using cs by simp_all
  have blank: "\<forall>d'. d0 < d' \<and> d' \<le> d \<longrightarrow> ?G d' = replicate ?n NaN"
    using assms(8) by simp
  have "map_of (ffill_rows [] (map (\<lambda>d. (d, ?G d)) [s..e])) d = Some (?G d0)"
    using good blank assms(4,5,6) by (rule ffill_rows_last_known)
  with reindex_and_fill_rows [OF assms(1)] cs
  have "map_of (rows df') d = Some cs" and "columns df' = columns df" by simp_all
  with cs show ?thesis by (simp add: loc_def)
qed

lemma reindex_and_fill_resolves:
  assumes "reindex_and_fill df s e = Inr df'"
    and "rectangular df" and "\<forall>r\<in>set (rows df). NaN \<notin> set (snd r)"
    and "s \<le> d0" and "d0 \<le> d" and "d \<le> e"
    and "map_of (rows df) d0 \<noteq> None"
    and "col \<in> set (columns df)"
  shows "\<exists>x. loc df' d col = Inr x \<and> x \<noteq> NaN"
proof -
  let ?D = "{d'. d0 \<le> d' \<and> d' \<le> d \<and> map_of (rows df) d' \<noteq> None}"
  have fin: "finite ?D" by (rule finite_subset [of _ "{d0..d}"]) auto
  have ne: "?D \<noteq> {}" using assms(5,7) by auto
  define d1 where "d1 = Max ?D"
  have d1: "d1 \<in> ?D" unfolding d1_def using fin ne by (rule Max_in)
  have latest: "\<forall>d'. d1 < d' \<and> d' \<le> d \<longrightarrow> map_of (rows df) d' = None"
  proof (intro allI impI)
    fix d' assume a: "d1 < d' \<and> d' \<le> d"
    show "map_of (rows df) d' = None"
    proof (rule ccontr)
      assume "map_of (rows df) d' \<noteq> None"
      with a d1 have "d' \<in> ?D" by auto
      with fin have "d' \<le> d1" unfolding d1_def by (rule Max_ge)
      with a show False by simp
    qed
  qed
  from d1 assms(4) have "s \<le> d1" "d1 \<le> d" "map_of (rows df) d1 \<noteq> None" by auto
  with assms(1,2,3,6) latest have eq: "loc df' d col = loc df d1 col"
    by (intro reindex_and_fill_last_known) auto
  from \<open>map_of (rows df) d1 \<noteq> None\<close> obtain cs where cs: "map_of (rows df) d1 = Some cs" by auto
  from find_index_of_Some [OF assms(8)] obtain k
    where k: "find_index_of col (columns df) = Some k" "k < length (columns df)" by blast
  from loaded_row [OF assms(2,3) cs] k have "cell_at cs k \<noteq> NaN"
    by (metis cell_at_def nth_mem)
  with eq cs k show ?thesis by (simp add: loc_def)
qed

lemma load_data_clean:
  assumes "rectangular raw"
  shows "rectangular (load_data (Inr raw)) \<and>
         (\<forall>r\<in>set (rows (load_data (Inr raw))). NaN \<notin> set (snd r)) \<and>
         columns (load_data (Inr raw)) = columns raw"
  using assms by (auto simp: load_data_def dropna_any_def rectangular_def list_all_iff)

lemma first_row_known: "rs \<noteq> [] \<Longrightarrow> map_of rs (fst (hd rs)) \<noteq> None"
  by (cases rs) auto

text \<open>Before the first day that has data, the filled rows are rows of NaN.\<close>

lemma ffill_rows_blank_start:
  assumes "s \<le> d" and "d \<le> e"
    and "\<forall>d'. s \<le> d' \<and> d' \<le> d \<longrightarrow> G d' = replicate n NaN"
  shows "map_of (ffill_rows [] (map (\<lambda>d. (d, G d)) [s..e])) d = Some (replicate n NaN)"
proof -
  from assms have se: "s \<le> e" and blank: "G s = replicate n NaN" by simp_all
  show ?thesis
  proof (cases "d = s")
    case True
    with se blank show ?thesis by (simp add: upto_rec1 Let_def)
  next
    case False
    with assms have lo: "s + 1 \<le> d" by simp
    have "map_of (ffill_rows (replicate n NaN) (map (\<lambda>d. (d, G d)) [s + 1..e])) d
            = Some (replicate n NaN)"
      using lo assms(2,3) by (intro ffill_rows_carries) auto
    with False se blank show ?thesis by (simp add: upto_rec1 Let_def)
  qed
qed

lemma reindex_and_fill_blank:
  assumes "reindex_and_fill df s e = Inr df'"
    and "s \<le> d" and "d \<le> e" and "col \<in> set (columns df)"
    and "\<forall>d0. s \<le> d0 \<and> d0 \<le> d \<longrightarrow> map_of (rows df) d0 = None"
  shows "loc df' d col = Inr NaN"
proof -
  let ?n = "length (columns df)"
  let ?G = "\<lambda>d. case map_of (rows df) d of Some cs \<Rightarrow> cs | None \<Rightarrow> replicate ?n NaN"
  have blank: "\<forall>d'. s \<le> d' \<and> d' \<le> d \<longrightarrow> ?G d' = replicate ?n NaN"
    using assms(5) by simp
  have "map_of (ffill_rows [] (map (\<lambda>d. (d, ?G d)) [s..e])) d = Some (replicate ?n NaN)"
    using assms(2,3) blank by (rule ffill_rows_blank_start)
  with reindex_and_fill_rows [OF assms(1)]
  have row: "map_of (rows df') d = Some (replicate ?n NaN)" and "columns df' = columns df"
    by simp_all
  from find_index_of_Some [OF assms(4)] obtain k
    where "find_index_of col (columns df) = Some k" "k < ?n" by blast
  with row \<open>columns df' = columns df\<close> show ?thesis
    by (simp add: loc_def cell_at_def)
qed

text \<open>
  C4. The claim: every price series is filled over every calendar day of its
  covered range, and a lookup fails only outside that range. On the code the two
  frames are filled over one range, from the first to the last index label of
  the loaded stock file, that is of its rows without a missing cell. With
  \<open>start_date\<close> and \<open>end_date\<close> these two labels: in both frames a lookup of a
  column of the frame raises KeyError exactly for the days outside
  \<open>start_date .. end_date\<close>; in both frames the value of a day without data (a
  weekend, a holiday) is the value of the last day before it, within the range,
  that has data; so in the stock frame every lookup within the range gives a
  price, and in the benchmark frame it does from the first day of the range
  that has benchmark data, and gives NaN before that day.
\<close>

theorem price_series_forward_filled:
  assumes "preprocess_price_data (Inr sp500_raw) (Inr stock_raw) = Inr (sp500_df, stock_df)"
    and "rectangular sp500_raw" and "rectangular stock_raw"
    and "\<not> frame_empty (load_data (Inr sp500_raw))"
    and "\<not> frame_empty (load_data (Inr stock_raw))"
    and "start_date = fst (hd (rows (load_data (Inr stock_raw))))"
    and "end_date = fst (last (rows (load_data (Inr stock_raw))))"
  shows
    "(\<forall>d col. col \<in> set (columns stock_raw) \<longrightarrow>
        (loc stock_df d col = Inl KeyError) = (d < start_date \<or> end_date < d)) \<and>
     (\<forall>d col. col \<in> set (columns sp500_raw) \<longrightarrow>
        (loc sp500_df d col = Inl KeyError) = (d < start_date \<or> end_date < d)) \<and>
     (\<forall>d col. start_date \<le> d \<and> d \<le> end_date \<and> col \<in> set (columns stock_raw) \<longrightarrow>
        (\<exists>x. loc stock_df d col = Inr x \<and> x \<noteq> NaN)) \<and>
     (\<forall>d d0 col. start_date \<le> d0 \<and> d0 \<le> d \<and> d \<le> end_date \<and>
        map_of (rows (load_data (Inr sp500_raw))) d0 \<noteq> None \<and> col \<in> set (columns sp500_raw) \<longrightarrow>
        (\<exists>x. loc sp500_df d col = Inr x \<and> x \<noteq> NaN)) \<and>
     (\<forall>d d0 col. start_date \<le> d0 \<and> d0 \<le> d \<and> d \<le> end_date \<and>
        map_of (rows (load_data (Inr stock_raw))) d0 \<noteq> None \<and>
        (\<forall>d'. d0 < d' \<and> d' \<le> d \<longrightarrow> map_of (rows (load_data (Inr stock_raw))) d' = None) \<longrightarrow>
        loc stock_df d col = loc (load_data (Inr stock_raw)) d0 col) \<and>
     (\<forall>d d0 col. start_date \<le> d0 \<and> d0 \<le> d \<and> d \<le> end_date \<and>
        map_of (rows (load_data (Inr sp500_raw))) d0 \<noteq> None \<and>
        (\<forall>d'. d0 < d' \<and> d' \<le> d \<longrightarrow> map_of (rows (load_data (Inr sp500_raw))) d' = None) \<longrightarrow>
        loc sp500_df d col = loc (load_data (Inr sp500_raw)) d0 col) \<and>
     (\<forall>d col. start_date \<le> d \<and> d \<le> end_date \<and> col \<in> set (columns sp500_raw) \<and>
        (\<forall>d0. start_date \<le> d0 \<and> d0 \<le> d \<longrightarrow> map_of (rows (load_data (Inr sp500_raw))) d0 = None)
        \<longrightarrow> loc sp500_df d col = Inr NaN)"
proof -
  let ?sp = "load_data (Inr sp500_raw)" and ?st = "load_data (Inr stock_raw)"
  from assms(1,4,5,6,7) have
    sp: "reindex_and_fill ?sp start_date end_date = Inr sp500_df" and
    st: "reindex_and_fill ?st start_date end_date = Inr stock_df"
    by (auto simp: preprocess_price_data_def Let_def bind_err_def split: sum.splits)
  note csp = load_data_clean [OF assms(2)] and cst = load_data_clean [OF assms(3)]
  from assms(5) have "rows ?st \<noteq> []" by (simp add: frame_empty_def)
  then have first: "map_of (rows ?st) start_date \<noteq> None"
    unfolding assms(6) by (rule first_row_known)
  have a: "(loc stock_df d col = Inl KeyError) = (d < start_date \<or> end_date < d)"
    if "col \<in> set (columns stock_raw)" for d col
    using reindex_and_fill_KeyError [OF st, of col d] that cst by simp
  have b: "(loc sp500_df d col = Inl KeyError) = (d < start_date \<or> end_date < d)"
    if "col \<in> set (columns sp500_raw)" for d col
    using reindex_and_fill_KeyError [OF sp, of col d] that csp by simp
  have c: "\<exists>x. loc stock_df d col = Inr x \<and> x \<noteq> NaN"
    if "start_date \<le> d \<and> d \<le> end_date \<and> col \<in> set (columns stock_raw)" for d col
    using reindex_and_fill_resolves [OF st, of start_date d col] cst first that by simp
  have d: "\<exists>x. loc sp500_df d col = Inr x \<and> x \<noteq> NaN"
    if "start_date \<le> d0 \<and> d0 \<le> d \<and> d \<le> end_date \<and>
        map_of (rows ?sp) d0 \<noteq> None \<and> col \<in> set (columns sp500_raw)" for d d0 col
    using reindex_and_fill_resolves [OF sp, of d0 d col] csp that by simp
  have e: "loc stock_df d col = loc ?st d0 col"
    if "start_date \<le> d0 \<and> d0 \<le> d \<and> d \<le> end_date \<and> map_of (rows ?st) d0 \<noteq> None \<and>
        (\<forall>d'. d0 < d' \<and> d' \<le> d \<longrightarrow> map_of (rows ?st) d' = None)" for d d0 col
    using reindex_and_fill_last_known [OF st, of d0 d col] cst that by simp
  have f: "loc sp500_df d col = loc ?sp d0 col"
    if "start_date \<le> d0 \<and> d0 \<le> d \<and> d \<le> end_date \<and> map_of (rows ?sp) d0 \<noteq> None \<and>
        (\<forall>d'. d0 < d' \<and> d' \<le> d \<longrightarrow> map_of (rows ?sp) d' = None)" for d d0 col
    using reindex_and_fill_last_known [OF sp, of d0 d col] csp that by simp
  have g: "loc sp500_df d col = Inr NaN"
    if "start_date \<le> d \<and> d \<le> end_date \<and> col \<in> set (columns sp500_raw) \<and>
        (\<forall>d0. start_date \<le> d0 \<and> d0 \<le> d \<longrightarrow> map_of (rows ?sp) d0 = None)" for d col
    using reindex_and_fill_blank [OF sp, of d col] csp that by simp
  from a b c d e f g show ?thesis by blast
qed

lemma price_samples_preprocessed:
  "preprocess_price_data (Inr sp500_sample) (Inr stock_sample)
    = Inr (\<lparr>columns = [''Adj Close''],
             rows = [(0, [Num 100]), (1, [Num 100]), (2, [Num 100]), (3, [Num 103])]\<rparr>,
           \<lparr>columns = [''AAPL''],
             rows = [(0, [Num 10]), (1, [Num 10]), (2, [Num 10]), (3, [Num 13])]\<rparr>)"
  by (simp add: preprocess_price_data_def load_data_def dropna_any_def frame_empty_def
       sp500_sample_def stock_sample_def reindex_and_fill_def reindex_def ffill_def bind_err_def
       upto_rec1 Let_def)

text \<open>
  On the sample files the weekend day 2 resolves to Friday's price, and day 4,
  after the last row, is not in the frame.
\<close>

theorem price_series_forward_filled_witness:
  "preprocess_price_data (Inr sp500_sample) (Inr stock_sample)
    = Inr (\<lparr>columns = [''Adj Close''],
             rows = [(0, [Num 100]), (1, [Num 100]), (2, [Num 100]), (3, [Num 103])]\<rparr>,
           \<lparr>columns = [''AAPL''],
             rows = [(0, [Num 10]), (1, [Num 10]), (2, [Num 10]), (3, [Num 13])]\<rparr>) \<and>
   rectangular sp500_sample \<and> rectangular stock_sample \<and>
   \<not> frame_empty (load_data (Inr sp500_sample)) \<and>
   \<not> frame_empty (load_data (Inr stock_sample)) \<and>
   fst (hd (rows (load_data (Inr stock_sample)))) = 0 \<and>
   fst (last (rows (load_data (Inr stock_sample)))) = 3 \<and>
   loc \<lparr>columns = [''AAPL''],
        rows = [(0 :: date, [Num 10]), (1, [Num 10]), (2, [Num 10]), (3, [Num 13])]\<rparr> 2 ''AAPL''
     = Inr (Num 10) \<and>
   loc \<lparr>columns = [''AAPL''],
        rows = [(0 :: date, [Num 10]), (1, [Num 10]), (2, [Num 10]), (3, [Num 13])]\<rparr> 4 ''AAPL''
     = Inl KeyError"
proof -
  have r1: "rectangular sp500_sample" and r2: "rectangular stock_sample"
    by (simp_all add: rectangular_def sp500_sample_def stock_sample_def)
  have n1: "\<not> frame_empty (load_data (Inr sp500_sample))"
    and n2: "\<not> frame_empty (load_data (Inr stock_sample))"
    by (simp_all add: frame_empty_def load_data_def dropna_any_def sp500_sample_def stock_sample_def)
  have s: "0 = fst (hd (rows (load_data (Inr stock_sample))))"
    and e: "3 = fst (last (rows (load_data (Inr stock_sample))))"
    by (simp_all add: load_data_def dropna_any_def stock_sample_def)
  note t = price_series_forward_filled [OF price_samples_preprocessed r1 r2 n1 n2 s e]
  have loaded: "rows (load_data (Inr stock_sample)) = [(0, [Num 10]), (3, [Num 13])]"
    by (simp add: load_data_def dropna_any_def stock_sample_def)
  have gap: "\<forall>d'. 0 < d' \<and> d' \<le> 2 \<longrightarrow> map_of (rows (load_data (Inr stock_sample))) d' = None"
    by (simp add: loaded)
  have known: "map_of (rows (load_data (Inr stock_sample))) 0 \<noteq> None"
    by (simp add: loaded)
  note t1 = t [THEN conjunct1, rule_format, of "''AAPL''" 4]
  note t5 = t [THEN conjunct2, THEN conjunct2, THEN conjunct2, THEN conjunct2, THEN conjunct1,
               rule_format, of 0 2 "''AAPL''"]
  have "loc \<lparr>columns = [''AAPL''],
        rows = [(0 :: date, [Num 10]), (1, [Num 10]), (2, [Num 10]), (3, [Num 13])]\<rparr> 2 ''AAPL''
     = loc (load_data (Inr stock_sample)) 0 ''AAPL''"
    using t5 gap known by simp
  moreover have "loc (load_data (Inr stock_sample)) 0 ''AAPL'' = Inr (Num 10)"
    by (simp add: loc_def load_data_def dropna_any_def stock_sample_def cell_at_def)
  moreover have "loc \<lparr>columns = [''AAPL''],
        rows = [(0 :: date, [Num 10]), (1, [Num 10]), (2, [Num 10]), (3, [Num 13])]\<rparr> 4 ''AAPL''
     = Inl KeyError"
    using t1 by (simp add: stock_sample_def)
  ultimately show ?thesis
    using price_samples_preprocessed r1 r2 n1 n2 s e by simp
qed

section \<open>Properties of the labelled rows\<close>

text \<open>A block one of whose two lookups misses raises; it yields no prices.\<close>

lemma price_change_miss:
  assumes "loc df d0 col = Inl KeyError \<or> loc df d1 col = Inl KeyError"
  shows "\<exists>e. price_change sf df col d0 d1 = Inl e"
proof (cases "loc df d0 col")
  case (Inl e)
  then show ?thesis by (simp add: price_change_def bind_err_def)
next
  case c0: (Inr c0)
  with assms have miss: "loc df d1 col = Inl KeyError" by simp
  show ?thesis
  proof (cases "py_float sf c0")
    case (Inl e)
    with c0 show ?thesis by (simp add: price_change_def bind_err_def)
  next
    case (Inr price)
    with c0 miss show ?thesis by (simp add: price_change_def bind_err_def)
  qed
qed

lemma snapshot_row_no_row:
  assumes "(\<exists>e. price_change sf sp500_df ''Adj Close''
                  (local_date off (unix_time snap))
                  (local_date off (one_year_later_time (unix_time snap))) = Inl e) \<or>
           (\<exists>e. price_change sf stock_df (upper (ticker snap))
                  (local_date off (unix_time snap))
                  (local_date off (one_year_later_time (unix_time snap))) = Inl e)"
  shows "snapshot_row off sf rs d2f sp500_df stock_df snap \<noteq> Inr (Some row)"
  using assms
  by (auto simp: snapshot_row_def Let_def split: sum.splits py_error.splits prod.splits)

text \<open>
  C3. If one of the four price lookups of a snapshot misses (KeyError for the
  benchmark or the ticker, at the snapshot date or at the date a year later),
  the snapshot yields no row, and whenever the assembler runs to its end the
  dataset it returns is the one it returns without that snapshot.
\<close>

theorem missing_price_drops_row:
  assumes "loc sp500_df (local_date off (unix_time snap)) ''Adj Close'' = Inl KeyError \<or>
           loc sp500_df (local_date off (one_year_later_time (unix_time snap))) ''Adj Close''
             = Inl KeyError \<or>
           loc stock_df (local_date off (unix_time snap)) (upper (ticker snap)) = Inl KeyError \<or>
           loc stock_df (local_date off (one_year_later_time (unix_time snap))) (upper (ticker snap))
             = Inl KeyError"
  shows "(\<forall>row. snapshot_row off sf rs d2f sp500_df stock_df snap \<noteq> Inr (Some row)) \<and>
         (\<forall>df out. parse_keystats_rows off sf rs d2f sp500_df stock_df (snap # rest) df = Inr out
            \<longrightarrow> parse_keystats_rows off sf rs d2f sp500_df stock_df rest df = Inr out)"
proof -
  let ?d0 = "local_date off (unix_time snap)"
  let ?d1 = "local_date off (one_year_later_time (unix_time snap))"
  from assms have
    "(loc sp500_df ?d0 ''Adj Close'' = Inl KeyError \<or> loc sp500_df ?d1 ''Adj Close'' = Inl KeyError) \<or>
     (loc stock_df ?d0 (upper (ticker snap)) = Inl KeyError \<or>
      loc stock_df ?d1 (upper (ticker snap)) = Inl KeyError)"
    by blast
  then have "(\<exists>e. price_change sf sp500_df ''Adj Close'' ?d0 ?d1 = Inl e) \<or>
             (\<exists>e. price_change sf stock_df (upper (ticker snap)) ?d0 ?d1 = Inl e)"
    using price_change_miss [of sp500_df ?d0 "''Adj Close''" ?d1 sf]
      price_change_miss [of stock_df ?d0 "upper (ticker snap)" ?d1 sf]
    by blast
  then have none: "snapshot_row off sf rs d2f sp500_df stock_df snap \<noteq> Inr (Some row)" for row
    by (rule snapshot_row_no_row)
  have "parse_keystats_rows off sf rs d2f sp500_df stock_df rest df = Inr out"
    if "parse_keystats_rows off sf rs d2f sp500_df stock_df (snap # rest) df = Inr out" for df out
  proof (cases "snapshot_row off sf rs d2f sp500_df stock_df snap")
    case (Inl e)
    with that show ?thesis by simp
  next
    case (Inr r)
    with none have "r = None" by (cases r) auto
    with Inr that show ?thesis by simp
  qed
  with none show ?thesis by blast
qed

text \<open>
  A snapshot of day 1 of the sample files: the day a year later, 366, is beyond
  the last day of the price frames, and the dataset stays empty.
\<close>

theorem missing_price_drops_row_witness:
  "loc sp500_filled (local_date (\<lambda>t. 0) (one_year_later_time (unix_time late_snapshot))) ''Adj Close''
     = Inl KeyError \<and>
   snapshot_row (\<lambda>t. 0) (\<lambda>s. Inl ValueError) (\<lambda>p s. None) (\<lambda>s. Inr (Str ''N/A''))
     sp500_filled stock_filled late_snapshot = Inr None \<and>
   parse_keystats (\<lambda>t. 0) (\<lambda>s. Inl ValueError) (\<lambda>p s. None) (\<lambda>s. Inr (Str ''N/A''))
     sp500_filled stock_filled [late_snapshot] = Inr []"
proof -
  have miss: "loc sp500_filled (local_date (\<lambda>t. 0) (one_year_later_time (unix_time late_snapshot)))
                ''Adj Close'' = Inl KeyError"
    by code_simp
  have skipped: "snapshot_row (\<lambda>t. 0) (\<lambda>s. Inl ValueError) (\<lambda>p s. None) (\<lambda>s. Inr (Str ''N/A''))
                   sp500_filled stock_filled late_snapshot = Inr None"
    by code_simp
  note t = missing_price_drops_row
    [of sp500_filled "\<lambda>t. 0" late_snapshot stock_filled "\<lambda>s. Inl ValueError" "\<lambda>p s. None"
        "\<lambda>s. Inr (Str ''N/A'')" "[]", OF disjI2, OF disjI1, OF miss]
  show ?thesis
    using t miss skipped by (simp add: parse_keystats_def)
qed

lemma local_date_365:
  "local_date tz (t + 365 * 86400) = (t + tz (t + 365 * 86400)) div 86400 + 365"
proof -
  have "(t + tz (t + 31536000) + 365 * 86400) div 86400
          = 365 + (t + tz (t + 31536000)) div 86400"
    by (rule div_mult_self1) simp
  moreover have "t + 31536000 + tz (t + 31536000) = t + tz (t + 31536000) + 365 * 86400"
    by simp
  ultimately show ?thesis
    by (simp add: local_date_def)
qed

text \<open>
  The benchmark block of a snapshot whose price at the snapshot date is a number
  and whose lookup at the later date misses: the snapshot is skipped.
\<close>

lemma snapshot_row_benchmark_miss:
  assumes "loc sp500_df (local_date tz (unix_time snap)) ''Adj Close'' = Inr (Num p)"
    and "loc sp500_df (local_date tz (one_year_later_time (unix_time snap))) ''Adj Close''
           = Inl KeyError"
  shows "snapshot_row tz sf rs d2f sp500_df stock_df snap = Inr None"
proof -
  have "price_change sf sp500_df ''Adj Close'' (local_date tz (unix_time snap))
          (local_date tz (one_year_later_time (unix_time snap))) = Inl KeyError"
    using assms by (simp add: price_change_def bind_err_def py_float_def)
  then show ?thesis by (simp add: snapshot_row_def Let_def)
qed

text \<open>
  C6. The horizon end of a snapshot is the instant 31,536,000 seconds after the
  snapshot time: 365 days of 86,400 seconds, never 366. The date looked up is
  the local day of that instant, which is 365 days after the day that the
  snapshot instant has under the offset in force at the horizon end; where the
  offset is the same at both instants it is the snapshot date plus 365, leap
  year or not. The benchmark price of the horizon is read at that date: a
  snapshot whose benchmark price is there at the snapshot date and missing at
  the local day of the snapshot time plus 365 days is skipped.
\<close>

theorem horizon_is_365_days:
  "one_year_later_time t = t + 365 * 86400 \<and>
   one_year_later_time t \<noteq> t + 366 * 86400 \<and>
   local_date tz (one_year_later_time t) = (t + tz (t + 365 * 86400)) div 86400 + 365 \<and>
   (tz (t + 365 * 86400) = tz t \<longrightarrow>
      local_date tz (one_year_later_time t) = local_date tz t + 365) \<and>
   (loc sp500_df (local_date tz (unix_time snap)) ''Adj Close'' = Inr (Num p) \<and>
    loc sp500_df (local_date tz (unix_time snap + 365 * 86400)) ''Adj Close'' = Inl KeyError
      \<longrightarrow> snapshot_row tz sf rs d2f sp500_df stock_df snap = Inr None)"
proof -
  have secs: "one_year_later_time u = u + 365 * 86400" for u
    by (simp add: one_year_later_time_def)
  have day: "local_date tz (one_year_later_time t) = (t + tz (t + 365 * 86400)) div 86400 + 365"
    unfolding secs by (rule local_date_365)
  have same: "local_date tz (one_year_later_time t) = local_date tz t + 365"
    if "tz (t + 365 * 86400) = tz t"
    using day that by (simp add: local_date_def)
  have skip: "snapshot_row tz sf rs d2f sp500_df stock_df snap = Inr None"
    if "loc sp500_df (local_date tz (unix_time snap)) ''Adj Close'' = Inr (Num p) \<and>
        loc sp500_df (local_date tz (unix_time snap + 365 * 86400)) ''Adj Close'' = Inl KeyError"
    using that snapshot_row_benchmark_miss [of sp500_df tz snap p sf rs d2f stock_df]
    by (simp add: secs)
  from day same skip show ?thesis
    by (simp add: one_year_later_time_def)
qed

text \<open>
  A snapshot taken on 15 January 2004 at noon UTC, day 12432, in a zone without
  daylight saving: the date looked up is day 12797, 14 January 2005, and not
  15 January 2005, the same date a calendar year later. And the snapshot of day
  1 of the sample files is skipped, as day 366 is not in the benchmark frame.
\<close>

theorem horizon_is_365_days_witness:
  "local_date (\<lambda>t. 0) 1074168000 = 12432 \<and>
   local_date (\<lambda>t. 0) (one_year_later_time 1074168000) = 12797 \<and>
   loc sp500_filled (local_date (\<lambda>t. 0) (unix_time late_snapshot)) ''Adj Close''
     = Inr (Num 100) \<and>
   loc sp500_filled (local_date (\<lambda>t. 0) (unix_time late_snapshot + 365 * 86400)) ''Adj Close''
     = Inl KeyError \<and>
   snapshot_row (\<lambda>t. 0) (\<lambda>s. Inl ValueError) (\<lambda>p s. None) (\<lambda>s. Inr (Str ''N/A''))
     sp500_filled stock_filled late_snapshot = Inr None"
proof -
  have d0: "local_date (\<lambda>t. 0) 1074168000 = 12432"
    by (simp add: local_date_def)
  have there: "loc sp500_filled (local_date (\<lambda>t. 0) (unix_time late_snapshot)) ''Adj Close''
                 = Inr (Num 100)"
    by code_simp
  have miss: "loc sp500_filled (local_date (\<lambda>t. 0) (unix_time late_snapshot + 365 * 86400))
                ''Adj Close'' = Inl KeyError"
    by code_simp
  note t = horizon_is_365_days
    [of 1074168000 "\<lambda>t. 0" sp500_filled late_snapshot 100 "\<lambda>s. Inl ValueError"
        "\<lambda>p s. None" "\<lambda>s. Inr (Str ''N/A'')" stock_filled]
  note same = t [THEN conjunct2, THEN conjunct2, THEN conjunct2, THEN conjunct1, rule_format]
  note skip = t [THEN conjunct2, THEN conjunct2, THEN conjunct2, THEN conjunct2, rule_format]
  have "local_date (\<lambda>t. 0) (one_year_later_time 1074168000)
          = local_date (\<lambda>t. 0) 1074168000 + 365"
    by (rule same) simp
  with d0 have "local_date (\<lambda>t. 0) (one_year_later_time 1074168000) = 12797"
    by simp
  moreover have
    "snapshot_row (\<lambda>t. 0) (\<lambda>s. Inl ValueError) (\<lambda>p s. None) (\<lambda>s. Inr (Str ''N/A''))
       sp500_filled stock_filled late_snapshot = Inr None"
    using there miss by (intro skip conjI)
  ultimately show ?thesis using d0 there miss by simp
qed

text \<open>
  In a zone with daylight saving the date looked up need not be the snapshot date
  plus 365. The snapshot of 31 October 2004, 00:30 in New York (04:30 UTC, an hour
  and a half before the clocks go back) is on day 12722; 31,536,000 seconds
  later it is 30 October 2005, 23:30, on day 13086, which is 364 days on.
\<close>

lemma horizon_across_daylight_saving:
  "local_date us_eastern 1099197000 = 12722 \<and>
   local_date us_eastern (one_year_later_time 1099197000) = 12722 + 364"
  by (simp add: local_date_def one_year_later_time_def us_eastern_def)

section \<open>Days of a series that the filled frames do not hold\<close>

text \<open>
  The benchmark file \<open>sp500_week\<close> has a price for day 4, a trading day of its
  own range, but the frames are filled over the days 0 to 3 of the stock file,
  and the lookup of the benchmark at day 4 raises KeyError. The stock file
  \<open>two_ticker_sample\<close> has a price of AAPL for day 0, but the row of day 0 is
  dropped when the file is loaded, because MSFT has none there; the frames are
  filled over the days 1 to 3, and the lookup of AAPL at day 0 raises KeyError.
\<close>

theorem price_series_own_range_counterexample:
  "map_of (rows sp500_week) 4 = Some [Num 104] \<and>
   preprocess_price_data (Inr sp500_week) (Inr stock_sample) = Inr (sp500_filled, stock_filled) \<and>
   loc sp500_filled 4 ''Adj Close'' = Inl KeyError \<and>
   map_of (rows two_ticker_sample) 0 = Some [Num 10, NaN] \<and>
   preprocess_price_data (Inr sp500_sample) (Inr two_ticker_sample)
     = Inr (\<lparr>columns = [''Adj Close''], rows = [(1, [NaN]), (2, [NaN]), (3, [Num 103])]\<rparr>,
            \<lparr>columns = [''AAPL'', ''MSFT''],
              rows = [(1, [Num 11, Num 20]), (2, [Num 11, Num 20]), (3, [Num 13, Num 22])]\<rparr>) \<and>
   loc \<lparr>columns = [''AAPL'', ''MSFT''],
        rows = [(1 :: date, [Num 11, Num 20]), (2, [Num 11, Num 20]), (3, [Num 13, Num 22])]\<rparr>
     0 ''AAPL'' = Inl KeyError"
proof -
  have a: "preprocess_price_data (Inr sp500_week) (Inr stock_sample)
             = Inr (sp500_filled, stock_filled)"
    by (simp add: preprocess_price_data_def load_data_def dropna_any_def frame_empty_def
         sp500_week_def stock_sample_def sp500_filled_def stock_filled_def reindex_and_fill_def
         reindex_def ffill_def bind_err_def upto_rec1 Let_def)
  have b: "preprocess_price_data (Inr sp500_sample) (Inr two_ticker_sample)
     = Inr (\<lparr>columns = [''Adj Close''], rows = [(1, [NaN]), (2, [NaN]), (3, [Num 103])]\<rparr>,
            \<lparr>columns = [''AAPL'', ''MSFT''],
              rows = [(1, [Num 11, Num 20]), (2, [Num 11, Num 20]), (3, [Num 13, Num 22])]\<rparr>)"
    by (simp add: preprocess_price_data_def load_data_def dropna_any_def frame_empty_def
         sp500_sample_def two_ticker_sample_def reindex_and_fill_def
         reindex_def ffill_def bind_err_def upto_rec1 Let_def)
  show ?thesis
    unfolding a b
    by (simp add: sp500_week_def two_ticker_sample_def sp500_filled_def loc_def)
qed

end
